theory Spec2Isabelle
  imports Complex_Main
begin

section \<open>JavaScript numbers\<close>

text \<open>
  A JavaScript Number is modelled by its value: a finite number (an exact real, so the
  rounding of IEEE doubles is left out), the two infinities, or NaN. The model has one
  zero, the positive one: every zero of this program is the literal \<open>0\<close> or a count.
  Division and addition follow the language: a division by zero gives an infinity, or NaN
  for \<open>0 / 0\<close>, and never raises.
\<close>

datatype jsnum = Num real | PosInf | NegInf | NaN

fun js_div :: "jsnum \<Rightarrow> jsnum \<Rightarrow> jsnum" where
  "js_div NaN y = NaN"
| "js_div x NaN = NaN"
| "js_div (Num a) (Num b) =
     (if b = 0 then (if a = 0 then NaN else if 0 < a then PosInf else NegInf)
      else Num (a / b))"
| "js_div (Num a) PosInf = Num 0"
| "js_div (Num a) NegInf = Num 0"
| "js_div PosInf (Num b) = (if 0 \<le> b then PosInf else NegInf)"
| "js_div NegInf (Num b) = (if 0 \<le> b then NegInf else PosInf)"
| "js_div PosInf PosInf = NaN"
| "js_div PosInf NegInf = NaN"
| "js_div NegInf PosInf = NaN"
| "js_div NegInf NegInf = NaN"

fun js_add :: "jsnum \<Rightarrow> jsnum \<Rightarrow> jsnum" where
  "js_add NaN y = NaN"
| "js_add x NaN = NaN"
| "js_add (Num a) (Num b) = Num (a + b)"
| "js_add (Num a) PosInf = PosInf"
| "js_add (Num a) NegInf = NegInf"
| "js_add PosInf (Num b) = PosInf"
| "js_add NegInf (Num b) = NegInf"
| "js_add PosInf PosInf = PosInf"
| "js_add NegInf NegInf = NegInf"
| "js_add PosInf NegInf = NaN"
| "js_add NegInf PosInf = NaN"

fun js_mul :: "jsnum \<Rightarrow> jsnum \<Rightarrow> jsnum" where
  "js_mul NaN y = NaN"
| "js_mul x NaN = NaN"
| "js_mul (Num a) (Num b) = Num (a * b)"
| "js_mul (Num a) PosInf = (if a = 0 then NaN else if 0 < a then PosInf else NegInf)"
| "js_mul (Num a) NegInf = (if a = 0 then NaN else if 0 < a then NegInf else PosInf)"
| "js_mul PosInf (Num b) = (if b = 0 then NaN else if 0 < b then PosInf else NegInf)"
| "js_mul NegInf (Num b) = (if b = 0 then NaN else if 0 < b then NegInf else PosInf)"
| "js_mul PosInf PosInf = PosInf"
| "js_mul NegInf NegInf = PosInf"
| "js_mul PosInf NegInf = NegInf"
| "js_mul NegInf PosInf = NegInf"

text \<open>\<open>x === y\<close> on two Numbers: NaN equals nothing, not even itself.\<close>

fun js_eq :: "jsnum \<Rightarrow> jsnum \<Rightarrow> bool" where
  "js_eq NaN y = False"
| "js_eq x NaN = False"
| "js_eq x y = (x = y)"

text \<open>\<open>Number.isFinite(x)\<close> and \<open>x >= 0\<close>.\<close>

fun js_isFinite :: "jsnum \<Rightarrow> bool" where
  "js_isFinite (Num a) = True"
| "js_isFinite x = False"

fun js_nonneg :: "jsnum \<Rightarrow> bool" where
  "js_nonneg (Num a) = (0 \<le> a)"
| "js_nonneg PosInf = True"
| "js_nonneg x = False"

text \<open>What a \<open>throw\<close> carries: a TypeError of the runtime, or an Error with a message.\<close>

datatype js_error = TypeError | Thrown string

section \<open>JavaScript values\<close>

text \<open>
  The values \<open>JSON.parse\<close> produces, and \<open>undefined\<close>. A string is the list of its
  UTF-16 code units, one \<open>char\<close> standing for one code unit: the program takes the length
  of strings, tests them for emptiness and copies them, nothing else. An object is the list
  of its own properties (distinct keys).
\<close>

datatype jsval =
    JUndefined
  | JNull
  | JBool bool
  | JNumber jsnum
  | JString string
  | JArray "jsval list"
  | JObject "(string \<times> jsval) list"

text \<open>The truth value of a value in a condition.\<close>

fun truthy :: "jsval \<Rightarrow> bool" where
  "truthy JUndefined = False"
| "truthy JNull = False"
| "truthy (JBool b) = b"
| "truthy (JNumber n) = (n \<noteq> Num 0 \<and> n \<noteq> NaN)"
| "truthy (JString s) = (s \<noteq> [])"
| "truthy (JArray xs) = True"
| "truthy (JObject kvs) = True"

text \<open>\<open>a || b\<close>.\<close>

definition js_or :: "jsval \<Rightarrow> jsval \<Rightarrow> jsval" where
  "js_or a b = (if truthy a then a else b)"

text \<open>
  \<open>v.name\<close>, for the property names this program reads (none of them is a method of
  a prototype): a TypeError on \<open>undefined\<close> and \<open>null\<close>; the own property of an
  object, or \<open>undefined\<close>; \<open>length\<close> on strings and arrays.
\<close>

fun get_prop :: "jsval \<Rightarrow> string \<Rightarrow> js_error + jsval" where
  "get_prop JUndefined name = Inl TypeError"
| "get_prop JNull name = Inl TypeError"
| "get_prop (JBool b) name = Inr JUndefined"
| "get_prop (JNumber n) name = Inr JUndefined"
| "get_prop (JString s) name =
     Inr (if name = ''length'' then JNumber (Num (real (length s))) else JUndefined)"
| "get_prop (JArray xs) name =
     Inr (if name = ''length'' then JNumber (Num (real (length xs))) else JUndefined)"
| "get_prop (JObject kvs) name =
     Inr (case map_of kvs name of Some v \<Rightarrow> v | None \<Rightarrow> JUndefined)"

text \<open>\<open>v?.name\<close>: \<open>undefined\<close> where \<open>v.name\<close> would raise.\<close>

definition opt_prop :: "jsval \<Rightarrow> string \<Rightarrow> jsval" where
  "opt_prop v name = (case get_prop v name of Inl e \<Rightarrow> JUndefined | Inr x \<Rightarrow> x)"

text \<open>
  The elements \<open>for (const x of v)\<close> visits: those of an array, the characters of a
  string (each a string of its own); any other value is not iterable.
\<close>

fun js_iter :: "jsval \<Rightarrow> js_error + jsval list" where
  "js_iter (JArray xs) = Inr xs"
| "js_iter (JString s) = Inr (map (\<lambda>c. JString [c]) s)"
| "js_iter v = Inl TypeError"

text \<open>
  The conversion to a Number that an arithmetic operator applies to its operand. For a
  string, an array or an object it parses text or calls conversion methods, and may raise:
  that part is the parameter \<open>coerce\<close>, and every statement below holds for each one.
\<close>

fun to_number :: "(jsval \<Rightarrow> js_error + jsnum) \<Rightarrow> jsval \<Rightarrow> js_error + jsnum" where
  "to_number coerce JUndefined = Inr NaN"
| "to_number coerce JNull = Inr (Num 0)"
| "to_number coerce (JBool b) = Inr (Num (if b then 1 else 0))"
| "to_number coerce (JNumber n) = Inr n"
| "to_number coerce v = coerce v"

text \<open>\<open>Math.ceil\<close>.\<close>

fun js_ceil :: "jsnum \<Rightarrow> jsnum" where
  "js_ceil (Num a) = Num (of_int \<lceil>a\<rceil>)"
| "js_ceil x = x"

section \<open>The pricing table (config.pricing)\<close>

record pricing_entry =
  inputTokensPerDollar :: jsnum
  outputTokensPerDollar :: jsnum

text \<open>
  The object literal \<open>config.pricing\<close>, key by key in the order of the source; each
  rate is the quotient the source writes, evaluated when the module is loaded.
\<close>

definition config_pricing :: "(string \<times> pricing_entry) list" where
  "config_pricing =
    [(''gemini-pro'',
        \<lparr>inputTokensPerDollar = js_div (Num 1000000) (Num 0.50),
         outputTokensPerDollar = js_div (Num 1000000) (Num 1.50)\<rparr>),
     (''gemini-pro-vision'',
        \<lparr>inputTokensPerDollar = js_div (Num 1000000) (Num 0.50),
         outputTokensPerDollar = js_div (Num 1000000) (Num 1.50)\<rparr>),
     (''gemini-1.5-pro'',
        \<lparr>inputTokensPerDollar = js_div (Num 1000000) (Num 3.50),
         outputTokensPerDollar = js_div (Num 1000000) (Num 10.50)\<rparr>),
     (''gemini-1.5-pro-latest'',
        \<lparr>inputTokensPerDollar = js_div (Num 1000000) (Num 3.50),
         outputTokensPerDollar = js_div (Num 1000000) (Num 10.50)\<rparr>),
     (''gemini-1.5-flash'',
        \<lparr>inputTokensPerDollar = js_div (Num 1000000) (Num 0.075),
         outputTokensPerDollar = js_div (Num 1000000) (Num 0.30)\<rparr>),
     (''gemini-1.5-flash-latest'',
        \<lparr>inputTokensPerDollar = js_div (Num 1000000) (Num 0.075),
         outputTokensPerDollar = js_div (Num 1000000) (Num 0.30)\<rparr>),
     (''gemini-1.5-flash-8b'',
        \<lparr>inputTokensPerDollar = js_div (Num 1000000) (Num 0.0375),
         outputTokensPerDollar = js_div (Num 1000000) (Num 0.15)\<rparr>),
     (''gemini-1.5-flash-8b-latest'',
        \<lparr>inputTokensPerDollar = js_div (Num 1000000) (Num 0.0375),
         outputTokensPerDollar = js_div (Num 1000000) (Num 0.15)\<rparr>),
     (''gemini-embedding-001'',
        \<lparr>inputTokensPerDollar = js_div (Num 1000000) (Num 0.15),
         outputTokensPerDollar = Num 0\<rparr>),
     (''gemini-2.0-flash-exp'',
        \<lparr>inputTokensPerDollar = js_div (Num 1000000) (Num 0.075),
         outputTokensPerDollar = js_div (Num 1000000) (Num 0.30)\<rparr>),
     (''gemini-2.5-pro'',
        \<lparr>inputTokensPerDollar = js_div (Num 1000000) (Num 3.50),
         outputTokensPerDollar = js_div (Num 1000000) (Num 10.50)\<rparr>),
     (''gemini-2.5-pro-latest'',
        \<lparr>inputTokensPerDollar = js_div (Num 1000000) (Num 3.50),
         outputTokensPerDollar = js_div (Num 1000000) (Num 10.50)\<rparr>)]"

text \<open>
  The members every object literal inherits from \<open>Object.prototype\<close>: the literal has
  them under these names although it does not list them.
\<close>

definition object_prototype_members :: "string list" where
  "object_prototype_members =
     [''constructor'', ''__defineGetter__'', ''__defineSetter__'', ''hasOwnProperty'',
      ''__lookupGetter__'', ''__lookupSetter__'', ''isPrototypeOf'',
      ''propertyIsEnumerable'', ''toString'', ''valueOf'', ''__proto__'',
      ''toLocaleString'']"

text \<open>
  What \<open>obj[name]\<close> finds in an object literal: the value stored under a key of its
  own, a member it inherits (a function, or the prototype object for \<open>__proto__\<close>), or
  nothing, which reads as \<open>undefined\<close>.
\<close>

datatype 'a member = Own 'a | Inherited | Missing

text \<open>\<open>config.pricing[name]\<close>.\<close>

definition pricing_get :: "string \<Rightarrow> pricing_entry member" where
  "pricing_get name =
     (case map_of config_pricing name of
        Some p \<Rightarrow> Own p
      | None \<Rightarrow> if name \<in> set object_prototype_members then Inherited else Missing)"

section \<open>GeminiService.calculateCost\<close>

text \<open>
  \<open>a || b\<close> on two such lookups: an entry and an inherited member are truthy,
  \<open>undefined\<close> is not.
\<close>

definition or_else :: "'a member \<Rightarrow> 'a member \<Rightarrow> 'a member" where
  "or_else a b = (case a of Own x \<Rightarrow> Own x | Inherited \<Rightarrow> Inherited | Missing \<Rightarrow> b)"

text \<open>
  Reading a property of \<open>undefined\<close> raises a TypeError, so the function returns a sum.
  An inherited member has neither rate: each reads as \<open>undefined\<close>, which the division
  converts to NaN.
\<close>

definition calculateCost :: "jsnum \<Rightarrow> jsnum \<Rightarrow> string \<Rightarrow> js_error + jsnum" where
  "calculateCost inputTokens outputTokens modelName =
     (case or_else (pricing_get modelName) (pricing_get ''gemini-pro'') of
        Missing \<Rightarrow> Inl TypeError
      | Inherited \<Rightarrow>
          (let inputCost = js_div inputTokens NaN;
               outputCost = js_div outputTokens NaN
           in Inr (js_add inputCost outputCost))
      | Own pricing \<Rightarrow>
          (let inputCost = js_div inputTokens (inputTokensPerDollar pricing);
               outputCost = js_div outputTokens (outputTokensPerDollar pricing)
           in Inr (js_add inputCost outputCost)))"

section \<open>GeminiService.extractTokenUsage\<close>

text \<open>The response object of the HTTP client (axios).\<close>

record axios_response =
  data :: jsval
  status :: nat
  headers :: "(string \<times> string) list"

record token_usage =
  promptTokenCount :: jsval
  candidatesTokenCount :: jsval
  totalTokenCount :: jsval

text \<open>The inner loop, over the parts of one candidate; \<open>outputTokens\<close> is threaded.\<close>

fun parts_loop ::
  "(jsval \<Rightarrow> js_error + jsnum) \<Rightarrow> jsval list \<Rightarrow> jsnum \<Rightarrow> js_error + jsnum" where
  "parts_loop coerce [] outputTokens = Inr outputTokens"
| "parts_loop coerce (part # rest) outputTokens =
     (case get_prop part ''text'' of
        Inl e \<Rightarrow> Inl e
      | Inr text \<Rightarrow>
          if truthy text then
            (case get_prop text ''length'' of
               Inl e \<Rightarrow> Inl e
             | Inr len \<Rightarrow>
                 (case to_number coerce len of
                    Inl e \<Rightarrow> Inl e
                  | Inr n \<Rightarrow>
                      parts_loop coerce rest
                        (js_add outputTokens (js_ceil (js_div n (Num 4))))))
          else parts_loop coerce rest outputTokens)"

text \<open>
  The outer loop, over the candidates. Where the source reads a property of a value it has
  just found truthy (\<open>candidate.content.parts\<close>, \<open>usageMetadata.promptTokenCount\<close>),
  the read cannot raise and is written with \<open>opt_prop\<close>.
\<close>

fun candidates_loop ::
  "(jsval \<Rightarrow> js_error + jsnum) \<Rightarrow> jsval list \<Rightarrow> jsnum \<Rightarrow> js_error + jsnum" where
  "candidates_loop coerce [] outputTokens = Inr outputTokens"
| "candidates_loop coerce (candidate # rest) outputTokens =
     (case get_prop candidate ''content'' of
        Inl e \<Rightarrow> Inl e
      | Inr content \<Rightarrow>
          if truthy content \<and> truthy (opt_prop content ''parts'') then
            (case js_iter (opt_prop content ''parts'') of
               Inl e \<Rightarrow> Inl e
             | Inr ps \<Rightarrow>
                 (case parts_loop coerce ps outputTokens of
                    Inl e \<Rightarrow> Inl e
                  | Inr outputTokens' \<Rightarrow> candidates_loop coerce rest outputTokens'))
          else candidates_loop coerce rest outputTokens)"

text \<open>The body of the \<open>try\<close> block: \<open>Inl\<close> is an exception raised inside it.\<close>

definition extract_try ::
  "(jsval \<Rightarrow> js_error + jsnum) \<Rightarrow> axios_response \<Rightarrow> js_error + token_usage" where
  "extract_try coerce response =
     (let usageMetadata = opt_prop (data response) ''usageMetadata'' in
      if truthy usageMetadata then
        Inr \<lparr>promptTokenCount =
               js_or (opt_prop usageMetadata ''promptTokenCount'') (JNumber (Num 0)),
             candidatesTokenCount =
               js_or (opt_prop usageMetadata ''candidatesTokenCount'') (JNumber (Num 0)),
             totalTokenCount =
               js_or (opt_prop usageMetadata ''totalTokenCount'') (JNumber (Num 0))\<rparr>
      else
        (case (if truthy (opt_prop (data response) ''candidates'')
               then (case js_iter (opt_prop (data response) ''candidates'') of
                       Inl e \<Rightarrow> Inl e
                     | Inr candidates \<Rightarrow> candidates_loop coerce candidates (Num 0))
               else Inr (Num 0)) of
           Inl e \<Rightarrow> Inl e
         | Inr outputTokens \<Rightarrow>
             Inr \<lparr>promptTokenCount = JNumber (Num 0),
                  candidatesTokenCount = JNumber outputTokens,
                  totalTokenCount = JNumber outputTokens\<rparr>))"

definition zero_usage :: token_usage where
  "zero_usage =
     \<lparr>promptTokenCount = JNumber (Num 0), candidatesTokenCount = JNumber (Num 0),
      totalTokenCount = JNumber (Num 0)\<rparr>"

text \<open>The \<open>catch\<close> clause logs and returns the all-zero usage.\<close>

definition extractTokenUsage ::
  "(jsval \<Rightarrow> js_error + jsnum) \<Rightarrow> axios_response \<Rightarrow> token_usage" where
  "extractTokenUsage coerce response =
     (case extract_try coerce response of Inl e \<Rightarrow> zero_usage | Inr usage \<Rightarrow> usage)"

subsection \<open>Well-formed provider responses\<close>

text \<open>
  A part of a candidate is a text or carries inline data; a candidate is the list of its
  parts. The functions below build the JSON the provider sends for them.
\<close>

datatype resp_part = TextPart string | DataPart string string

fun part_json :: "resp_part \<Rightarrow> jsval" where
  "part_json (TextPart t) = JObject [(''text'', JString t)]"
| "part_json (DataPart mimeType d) =
     JObject [(''inlineData'', JObject [(''mimeType'', JString mimeType), (''data'', JString d)])]"

definition candidate_json :: "resp_part list \<Rightarrow> jsval" where
  "candidate_json ps =
     JObject [(''content'', JObject [(''parts'', JArray (map part_json ps)),
                                      (''role'', JString ''model'')]),
              (''finishReason'', JString ''STOP'')]"

definition usage_json :: "nat \<Rightarrow> nat \<Rightarrow> nat \<Rightarrow> jsval" where
  "usage_json p c t =
     JObject [(''promptTokenCount'', JNumber (Num (real p))),
              (''candidatesTokenCount'', JNumber (Num (real c))),
              (''totalTokenCount'', JNumber (Num (real t)))]"




section \<open>The token estimator (estimateTokenUsage)\<close>

text \<open>
  The request body, as the validation schema of the routes admits it: contents with parts,
  each part with a text, inline data, or both. \<open>None\<close> is an absent property.
\<close>

datatype inline_data = InlineData string string

record part =
  text_part :: "string option"
  inlineData :: "inline_data option"

record content =
  parts :: "part list option"
  role :: "string option"

record request_body =
  contents :: "content list option"
  prompt :: "string option"

record estimate =
  input_est :: nat
  total_est :: nat

text \<open>The loop over the parts of one content, \<open>estimatedInputTokens\<close> threaded.\<close>

fun estimate_parts :: "part list \<Rightarrow> nat \<Rightarrow> nat" where
  "estimate_parts [] estimatedInputTokens = estimatedInputTokens"
| "estimate_parts (p # rest) estimatedInputTokens =
     (let n1 = (case text_part p of
                  Some t \<Rightarrow>
                    if t \<noteq> [] then estimatedInputTokens + nat \<lceil>real (length t) / 4\<rceil>
                    else estimatedInputTokens
                | None \<Rightarrow> estimatedInputTokens);
          n2 = (if inlineData p \<noteq> None then n1 + 1000 else n1)
      in estimate_parts rest n2)"

fun estimate_contents :: "content list \<Rightarrow> nat \<Rightarrow> nat" where
  "estimate_contents [] estimatedInputTokens = estimatedInputTokens"
| "estimate_contents (c # rest) estimatedInputTokens =
     estimate_contents rest
       (case parts c of
          Some ps \<Rightarrow> estimate_parts ps estimatedInputTokens
        | None \<Rightarrow> estimatedInputTokens)"

text \<open>
  The body of the \<open>try\<close> block. The counts are natural numbers: the lengths and sums
  are far below \<open>2^53\<close>, where the arithmetic of Numbers is exact.
\<close>

definition estimate_try :: "request_body \<Rightarrow> estimate" where
  "estimate_try body =
     (let estimatedInputTokens =
            (case contents body of
               Some cs \<Rightarrow> estimate_contents cs 0
             | None \<Rightarrow>
                 (case prompt body of
                    Some p \<Rightarrow> if p \<noteq> [] then nat \<lceil>real (length p) / 4\<rceil> else 0
                  | None \<Rightarrow> 0));
          estimatedInputTokens = estimatedInputTokens + 100
      in \<lparr>input_est = estimatedInputTokens, total_est = estimatedInputTokens * 2\<rparr>)"

text \<open>
  A request without a parsed body makes \<open>body.contents\<close> raise; the \<open>catch\<close> clause
  continues with the zero estimate.
\<close>

definition estimated_tokens :: "request_body option \<Rightarrow> estimate" where
  "estimated_tokens body =
     (case body of
        None \<Rightarrow> \<lparr>input_est = 0, total_est = 0\<rparr>
      | Some b \<Rightarrow> estimate_try b)"

subsection \<open>The estimate as the specification words it\<close>

definition part_tokens :: "part \<Rightarrow> nat" where
  "part_tokens p =
     (case text_part p of Some t \<Rightarrow> nat \<lceil>real (length t) / 4\<rceil> | None \<Rightarrow> 0)
     + (case inlineData p of Some d \<Rightarrow> 1000 | None \<Rightarrow> 0)"

definition content_tokens :: "content \<Rightarrow> nat" where
  "content_tokens c = (case parts c of Some ps \<Rightarrow> sum_list (map part_tokens ps) | None \<Rightarrow> 0)"

definition spec_input_estimate :: "content list \<Rightarrow> nat" where
  "spec_input_estimate cs = sum_list (map content_tokens cs) + 100"

section \<open>Effects and external collaborators\<close>

text \<open>
  Every call to a collaborator (identity provider, store, upstream API) and every log line
  is an event; a function that has effects returns its value with the list of the events it
  caused, in the order the program starts them. What a collaborator answers is an input.
\<close>

datatype level = DEBUG | INFO | WARN | ERROR

datatype handle = ClientHandle | AdminHandle

record usage_row =
  user_id :: string
  tokens_used :: jsval
  cost_col :: jsnum
  model_name :: string
  request_type :: string
  service :: string

datatype event =
    Log level string
  | AuthGetUser handle string
  | SelectProfile string
  | InsertProfile string
  | RpcCheckLimits string
  | UpstreamPost string
  | InsertUsage usage_row

fun is_verify :: "event \<Rightarrow> bool" where
  "is_verify (AuthGetUser h token) = True"
| "is_verify e = False"

fun is_upstream :: "event \<Rightarrow> bool" where
  "is_upstream (UpstreamPost m) = True"
| "is_upstream e = False"

fun is_usage_write :: "event \<Rightarrow> bool" where
  "is_usage_write (InsertUsage row) = True"
| "is_usage_write e = False"

text \<open>
  An awaited call of the store client either raises, or resolves with the pair
  \<open>{data, error}\<close>, each of which may be \<open>null\<close>.
\<close>

record sb_error =
  err_code :: string
  err_message :: string

datatype 'a sb_outcome = SbThrows string | SbResult "'a option" "sb_error option"

record user =
  uid :: string
  email :: string

record profile =
  subscription_tier :: string
  is_active :: bool

text \<open>
  A row of the limits call: three flags and three counters. The counters are Numbers, as
  a JSON answer holds them for numeric columns.
\<close>

record limits =
  within_hourly_limit :: bool
  within_daily_token_limit :: bool
  within_daily_cost_limit :: bool
  requests_last_hour :: jsnum
  tokens_today :: jsnum
  cost_today :: jsnum

section \<open>SupabaseService\<close>

datatype verify_error = ProviderError sb_error | Exception string

record verify_result =
  vr_user :: "user option"
  vr_error :: "verify_error option"

text \<open>
  \<open>verifyToken\<close>: the call with the client handle first; when it resolves with an error,
  the same call with the admin handle. Nothing is re-raised: every failure is returned in
  the \<open>error\<close> field.
\<close>

definition verifyToken ::
  "user sb_outcome \<Rightarrow> user sb_outcome \<Rightarrow> string \<Rightarrow> verify_result \<times> event list" where
  "verifyToken client_answer admin_answer token =
     (case client_answer of
        SbThrows m \<Rightarrow>
          (\<lparr>vr_user = None, vr_error = Some (Exception m)\<rparr>,
           [Log DEBUG ''Starting token verification'', AuthGetUser ClientHandle token,
            Log ERROR ''Error verifying token''])
      | SbResult found error \<Rightarrow>
          (case error of
             Some err \<Rightarrow>
               (case admin_answer of
                  SbThrows m \<Rightarrow>
                    (\<lparr>vr_user = None, vr_error = Some (Exception m)\<rparr>,
                     [Log DEBUG ''Starting token verification'',
                      AuthGetUser ClientHandle token,
                      Log WARN ''Primary token verification failed, trying admin method'',
                      AuthGetUser AdminHandle token,
                      Log ERROR ''Admin token verification threw exception''])
                | SbResult adminUser adminError \<Rightarrow>
                    (case adminError of
                       Some aerr \<Rightarrow>
                         (\<lparr>vr_user = None, vr_error = Some (ProviderError aerr)\<rparr>,
                          [Log DEBUG ''Starting token verification'',
                           AuthGetUser ClientHandle token,
                           Log WARN ''Primary token verification failed, trying admin method'',
                           AuthGetUser AdminHandle token,
                           Log WARN ''Admin token verification also failed''])
                     | None \<Rightarrow>
                         (\<lparr>vr_user = adminUser, vr_error = None\<rparr>,
                          [Log DEBUG ''Starting token verification'',
                           AuthGetUser ClientHandle token,
                           Log WARN ''Primary token verification failed, trying admin method'',
                           AuthGetUser AdminHandle token,
                           Log DEBUG ''Admin token verification successful''])))
           | None \<Rightarrow>
               (\<lparr>vr_user = found, vr_error = None\<rparr>,
                [Log DEBUG ''Starting token verification'', AuthGetUser ClientHandle token,
                 Log DEBUG ''Primary token verification successful''])))"

text \<open>
  \<open>checkUserLimits\<close> of the service: the first row of the answer, or the default
  snapshot when there is none. An error in the answer is raised; \<open>data[0]\<close> on a
  \<open>null\<close> data raises a TypeError; both are logged and raised again.
\<close>

definition default_limits :: limits where
  "default_limits =
     \<lparr>within_hourly_limit = False, within_daily_token_limit = False,
      within_daily_cost_limit = False, requests_last_hour = Num 0, tokens_today = Num 0,
      cost_today = Num 0\<rparr>"

definition supabase_checkUserLimits ::
  "limits list sb_outcome \<Rightarrow> string \<Rightarrow> (js_error + limits) \<times> event list" where
  "supabase_checkUserLimits rpc_answer userId =
     (case rpc_answer of
        SbThrows m \<Rightarrow>
          (Inl (Thrown m), [RpcCheckLimits userId, Log ERROR ''Error in checkUserLimits''])
      | SbResult rows error \<Rightarrow>
          (case error of
             Some err \<Rightarrow>
               (Inl (Thrown ''Failed to check user limits''),
                [RpcCheckLimits userId, Log ERROR ''Error checking user limits'',
                 Log ERROR ''Error in checkUserLimits''])
           | None \<Rightarrow>
               (case rows of
                  None \<Rightarrow>
                    (Inl TypeError,
                     [RpcCheckLimits userId, Log ERROR ''Error in checkUserLimits''])
                | Some [] \<Rightarrow> (Inr default_limits, [RpcCheckLimits userId])
                | Some (row # others) \<Rightarrow> (Inr row, [RpcCheckLimits userId]))))"

text \<open>\<open>recordUsage\<close> of the service: one insert; an error is logged and raised.\<close>

definition supabase_recordUsage ::
  "unit sb_outcome \<Rightarrow> usage_row \<Rightarrow> (js_error + unit) \<times> event list" where
  "supabase_recordUsage insert_answer row =
     (case insert_answer of
        SbThrows m \<Rightarrow> (Inl (Thrown m), [InsertUsage row, Log ERROR ''Error in recordUsage''])
      | SbResult d error \<Rightarrow>
          (case error of
             Some err \<Rightarrow>
               (Inl (Thrown ''Failed to record usage''),
                [InsertUsage row, Log ERROR ''Error recording usage'',
                 Log ERROR ''Error in recordUsage''])
           | None \<Rightarrow> (Inr (), [InsertUsage row, Log INFO ''Usage recorded successfully''])))"

text \<open>
  \<open>getUserProfile\<close>: the profile row; when the select reports that there is none (code
  PGRST116), a default profile is inserted and returned. The row may be \<open>null\<close>.
\<close>

definition getUserProfile ::
  "profile sb_outcome \<Rightarrow> profile sb_outcome \<Rightarrow> string \<Rightarrow>
     (js_error + profile option) \<times> event list" where
  "getUserProfile select_answer insert_answer userId =
     (case select_answer of
        SbThrows m \<Rightarrow>
          (Inl (Thrown m), [SelectProfile userId, Log ERROR ''Error in getUserProfile''])
      | SbResult row error \<Rightarrow>
          (case error of
             Some err \<Rightarrow>
               if err_code err = ''PGRST116'' then
                 (case insert_answer of
                    SbThrows m \<Rightarrow>
                      (Inl (Thrown m),
                       [SelectProfile userId, InsertProfile userId,
                        Log ERROR ''Error in getUserProfile''])
                  | SbResult newProfile insertError \<Rightarrow>
                      (case insertError of
                         Some ierr \<Rightarrow>
                           (Inl (Thrown ''Failed to create user profile''),
                            [SelectProfile userId, InsertProfile userId,
                             Log ERROR ''Error creating user profile'',
                             Log ERROR ''Error in getUserProfile''])
                       | None \<Rightarrow>
                           (Inr newProfile,
                            [SelectProfile userId, InsertProfile userId,
                             Log INFO ''Created new user profile''])))
               else
                 (Inl (Thrown ''Failed to get user profile''),
                  [SelectProfile userId, Log ERROR ''Error getting user profile'',
                   Log ERROR ''Error in getUserProfile''])
           | None \<Rightarrow> (Inr row, [SelectProfile userId])))"

section \<open>Requests, responses and the environment of one request\<close>

text \<open>
  The HTTP client resolves with the response of the provider, rejects with a response (a
  status outside 2xx), or rejects without one (no connection, timeout).
\<close>

datatype axios_outcome =
    Resolved axios_response
  | RejectedWithResponse axios_response
  | RejectedNoResponse string

text \<open>
  What the collaborators answer during one request, the reading of the clock
  (\<open>Date.now()\<close>, in milliseconds), the verdict of the schema validation library on the
  body (\<open>None\<close>: valid), and the conversion of non-primitive values to Numbers.
\<close>

record env =
  client_getUser :: "user sb_outcome"
  admin_getUser :: "user sb_outcome"
  profile_select :: "profile sb_outcome"
  profile_insert :: "profile sb_outcome"
  schema_error :: "string option"
  limits_rpc :: "limits list sb_outcome"
  upstream :: axios_outcome
  usage_insert :: "unit sb_outcome"
  now :: int
  number_of :: "jsval \<Rightarrow> js_error + jsnum"

record request =
  authorization :: "string option"
  model :: string
  body :: "request_body option"
  user :: "user option"
  userProfile :: "profile option"
  userLimits :: "limits option"
  estimatedTokens :: "estimate option"

text \<open>
  The JSON bodies the proxy sends: \<open>{error, message}\<close>; the same with the \<open>details\<close>
  of a quota rejection (the name of the counter, its value, the reset time as an instant in
  milliseconds); a validation error; the answer to a raised JavaScript error; the answer to
  an error object of the upstream forwarder (its code and message); and the provider's
  payload with the usage added: \<open>{...data, usageMetadata: {...data.usageMetadata, cost,
  model, timestamp}}\<close>, kept as its five components.
\<close>

datatype res_json =
    ErrorJson string string
  | LimitJson string string string jsnum int
  | ValidationJson string string
  | RaisedJson js_error
  | ApiErrorJson jsval jsval
  | GenerateJson jsval jsval jsnum string int

record response =
  res_status :: nat
  res_body :: res_json

text \<open>A middleware calls \<open>next()\<close> with the request it may have extended, or responds.\<close>

datatype outcome = Next request | Respond response

section \<open>The auth gate (authenticateUser)\<close>

definition authenticateUser :: "env \<Rightarrow> request \<Rightarrow> outcome \<times> event list" where
  "authenticateUser env req =
     (case authorization req of
        None \<Rightarrow>
          (Respond \<lparr>res_status = 401,
                    res_body = ErrorJson ''Authentication required''
                                 ''Please provide a valid Bearer token''\<rparr>,
           [Log WARN ''Missing or invalid authorization header''])
      | Some authHeader \<Rightarrow>
          if authHeader = [] \<or> take 7 authHeader \<noteq> ''Bearer '' then
            (Respond \<lparr>res_status = 401,
                      res_body = ErrorJson ''Authentication required''
                                   ''Please provide a valid Bearer token''\<rparr>,
             [Log WARN ''Missing or invalid authorization header''])
          else
            (case verifyToken (client_getUser env) (admin_getUser env) (drop 7 authHeader) of
               (vr, evs1) \<Rightarrow>
                 (case (vr_error vr, vr_user vr) of
                    (None, Some u) \<Rightarrow>
                      (case getUserProfile (profile_select env) (profile_insert env) (uid u) of
                         (Inl e, evs2) \<Rightarrow>
                           (Respond \<lparr>res_status = 500,
                                     res_body = ErrorJson ''Authentication service error''
                                                  ''Please try again later''\<rparr>,
                            evs1 @ evs2 @ [Log ERROR ''Authentication middleware error''])
                       | (Inr None, evs2) \<Rightarrow>
                           (Respond \<lparr>res_status = 500,
                                     res_body = ErrorJson ''Authentication service error''
                                                  ''Please try again later''\<rparr>,
                            evs1 @ evs2 @ [Log ERROR ''Authentication middleware error''])
                       | (Inr (Some p), evs2) \<Rightarrow>
                           if \<not> is_active p then
                             (Respond \<lparr>res_status = 403,
                                       res_body = ErrorJson ''Account inactive''
                                         ''Your account has been deactivated. Please contact support.''\<rparr>,
                              evs1 @ evs2 @ [Log WARN ''Inactive user attempted access''])
                           else
                             (Next (req\<lparr>user := Some u, userProfile := Some p\<rparr>),
                              evs1 @ evs2 @ [Log INFO ''User authenticated successfully'']))
                  | (verr, found) \<Rightarrow>
                      (Respond \<lparr>res_status = 401,
                                res_body = ErrorJson ''Invalid or expired token''
                                             ''Please authenticate again''\<rparr>,
                       evs1 @ [Log WARN ''Token verification failed'']))))"

section \<open>Validation of the model and of the body\<close>

definition allowedModels :: "string list" where
  "allowedModels =
     [''gemini-2.5-pro'', ''gemini-2.5-pro-latest'', ''gemini-2.0-flash-exp'',
      ''gemini-1.5-pro'', ''gemini-1.5-pro-latest'', ''gemini-1.5-flash'',
      ''gemini-1.5-flash-latest'', ''gemini-1.5-flash-8b'', ''gemini-1.5-flash-8b-latest'',
      ''gemini-embedding-001'', ''text-embedding-004'', ''text-multilingual-embedding-002'',
      ''gemini-pro'', ''gemini-pro-vision'']"

fun join :: "string \<Rightarrow> string list \<Rightarrow> string" where
  "join sep [] = []"
| "join sep [x] = x"
| "join sep (x # y # zs) = x @ sep @ join sep (y # zs)"

definition validateModel :: "request \<Rightarrow> outcome \<times> event list" where
  "validateModel req =
     (if model req \<notin> set allowedModels then
        (Respond \<lparr>res_status = 400,
                  res_body = ErrorJson ''Invalid model''
                    (''Model '' @ [CHR 0x27] @ model req @ [CHR 0x27]
                     @ '' is not supported. Allowed models: '' @ join '', '' allowedModels)\<rparr>,
         [])
      else (Next req, []))"

definition validateRequest :: "env \<Rightarrow> request \<Rightarrow> outcome \<times> event list" where
  "validateRequest env req =
     (case schema_error env of
        Some msg \<Rightarrow>
          (Respond \<lparr>res_status = 400, res_body = ValidationJson ''Validation error'' msg\<rparr>,
           [Log WARN ''Request validation failed''])
      | None \<Rightarrow> (Next req, []))"

section \<open>The quota guard (checkUserLimits)\<close>

definition windowMs :: int where
  "windowMs = 60 * 60 * 1000"

text \<open>
  \<open>parseFloat\<close> of a Number writes it as its shortest decimal string and reads that
  back: the same Number.
\<close>

definition parseFloat :: "jsnum \<Rightarrow> jsnum" where
  "parseFloat x = x"

definition checkUserLimits :: "env \<Rightarrow> request \<Rightarrow> outcome \<times> event list" where
  "checkUserLimits env req =
     (case user req of
        None \<Rightarrow> (Next req, [])
      | Some u \<Rightarrow>
          (case supabase_checkUserLimits (limits_rpc env) (uid u) of
             (Inl e, evs) \<Rightarrow> (Next req, evs @ [Log ERROR ''Error checking user limits''])
           | (Inr l, evs) \<Rightarrow>
               if \<not> within_hourly_limit l then
                 (Respond \<lparr>res_status = 429,
                           res_body = LimitJson ''Rate limit exceeded''
                             ''You have exceeded your hourly request limit''
                             ''requests_last_hour'' (requests_last_hour l)
                             (now env + windowMs)\<rparr>,
                  evs @ [Log INFO ''Checking user limits'',
                         Log WARN ''User exceeded hourly request limit''])
               else if \<not> within_daily_token_limit l then
                 (Respond \<lparr>res_status = 429,
                           res_body = LimitJson ''Token limit exceeded''
                             ''You have exceeded your daily token limit''
                             ''tokens_today'' (tokens_today l)
                             (now env + 24 * 60 * 60 * 1000)\<rparr>,
                  evs @ [Log INFO ''Checking user limits'',
                         Log WARN ''User exceeded daily token limit''])
               else if \<not> within_daily_cost_limit l then
                 (Respond \<lparr>res_status = 429,
                           res_body = LimitJson ''Cost limit exceeded''
                             ''You have exceeded your daily cost limit''
                             ''cost_today'' (parseFloat (cost_today l))
                             (now env + 24 * 60 * 60 * 1000)\<rparr>,
                  evs @ [Log INFO ''Checking user limits'',
                         Log WARN ''User exceeded daily cost limit''])
               else
                 (Next (req\<lparr>userLimits := Some l\<rparr>),
                  evs @ [Log INFO ''Checking user limits''])))"

section \<open>The token estimator as a middleware\<close>

definition estimateTokenUsage :: "request \<Rightarrow> outcome \<times> event list" where
  "estimateTokenUsage req =
     (Next (req\<lparr>estimatedTokens := Some (estimated_tokens (body req))\<rparr>),
      [case body req of
         None \<Rightarrow> Log ERROR ''Error estimating token usage''
       | Some b \<Rightarrow> Log INFO ''Token usage estimated''])"

section \<open>The usage recorder (GeminiService.recordUsage)\<close>

text \<open>
  The write is awaited inside a \<open>try\<close> whose \<open>catch\<close> clause only logs: the function
  returns nothing and never raises, so all that is left of it is its events.
\<close>

definition recordUsage ::
  "unit sb_outcome \<Rightarrow> string \<Rightarrow> token_usage \<Rightarrow> string \<Rightarrow> string \<Rightarrow> jsnum \<Rightarrow> event list" where
  "recordUsage insert_answer userId tokenUsage modelName requestType c =
     (case supabase_recordUsage insert_answer
             \<lparr>user_id = userId, tokens_used = totalTokenCount tokenUsage, cost_col = c,
              model_name = modelName, request_type = requestType, service = ''gemini''\<rparr> of
        (Inl e, evs) \<Rightarrow> evs @ [Log ERROR ''Failed to record usage in database'']
      | (Inr done, evs) \<Rightarrow> evs)"

section \<open>The upstream forwarder (GeminiService.generateContent)\<close>

record api_error =
  ae_status :: nat
  ae_message :: jsval
  ae_code :: jsval
  ae_details :: jsval

text \<open>What the function raises: an error object it builds, or a JavaScript error.\<close>

datatype thrown = ApiError api_error | Raised js_error

record gen_result =
  gr_data :: res_json
  gr_status :: nat
  gr_headers :: "(string \<times> string) list"

definition connection_error :: thrown where
  "connection_error =
     ApiError \<lparr>ae_status = 500, ae_message = JString ''Failed to connect to Gemini API'',
               ae_code = JString ''CONNECTION_ERROR'', ae_details = JUndefined\<rparr>"

text \<open>
  \<open>parseFloat(cost.toFixed(6))\<close>: six decimals, a tie rounded away from zero; NaN and
  the infinities are written and read back unchanged.
\<close>

fun round6 :: "jsnum \<Rightarrow> jsnum" where
  "round6 (Num a) = Num (sgn a * of_int \<lfloor>\<bar>a\<bar> * 10 ^ 6 + 1 / 2\<rfloor> / 10 ^ 6)"
| "round6 x = x"

text \<open>
  The call \<open>calculateCost(tokenUsage.promptTokenCount, tokenUsage.candidatesTokenCount,
  modelName)\<close>: the divisions convert the two counts to Numbers.
\<close>

definition cost_of_usage ::
  "(jsval \<Rightarrow> js_error + jsnum) \<Rightarrow> token_usage \<Rightarrow> string \<Rightarrow> js_error + jsnum" where
  "cost_of_usage coerce tokenUsage modelName =
     (case to_number coerce (promptTokenCount tokenUsage) of
        Inl e \<Rightarrow> Inl e
      | Inr i \<Rightarrow>
          (case to_number coerce (candidatesTokenCount tokenUsage) of
             Inl e \<Rightarrow> Inl e
           | Inr k \<Rightarrow> calculateCost i k modelName))"

text \<open>
  The usage write is started and not awaited; its events are placed where it is started.
  An exception after the response has arrived is caught by the same \<open>catch\<close> clause as a
  failed call and, having no \<open>response\<close> property, becomes the connection error.
\<close>

definition generateContent ::
  "env \<Rightarrow> string \<Rightarrow> request_body option \<Rightarrow> string \<Rightarrow> string \<Rightarrow>
     (thrown + gen_result) \<times> event list" where
  "generateContent env modelName requestBody userId requestType =
     (case upstream env of
        RejectedNoResponse m \<Rightarrow>
          (Inl connection_error,
           [Log INFO ''Making Gemini API request'', UpstreamPost modelName,
            Log ERROR ''Gemini API request failed''])
      | RejectedWithResponse r \<Rightarrow>
          (case get_prop (data r) ''error'' of
             Inl e \<Rightarrow>
               (Inl (Raised e),
                [Log INFO ''Making Gemini API request'', UpstreamPost modelName,
                 Log ERROR ''Gemini API request failed''])
           | Inr err \<Rightarrow>
               (Inl (ApiError
                  \<lparr>ae_status = status r,
                   ae_message = js_or (opt_prop err ''message'') (JString ''Gemini API error''),
                   ae_code = js_or (opt_prop err ''code'') (JString ''UNKNOWN_ERROR''),
                   ae_details = js_or (opt_prop err ''details'') (JArray [])\<rparr>),
                [Log INFO ''Making Gemini API request'', UpstreamPost modelName,
                 Log ERROR ''Gemini API request failed'']))
      | Resolved r \<Rightarrow>
          (let tokenUsage = extractTokenUsage (number_of env) r;
               evs1 = [Log INFO ''Making Gemini API request'', UpstreamPost modelName]
                      @ (case extract_try (number_of env) r of
                           Inl e \<Rightarrow> [Log ERROR ''Error extracting token usage'']
                         | Inr usage \<Rightarrow> [])
           in case cost_of_usage (number_of env) tokenUsage modelName of
                Inl e \<Rightarrow> (Inl connection_error, evs1 @ [Log ERROR ''Gemini API request failed''])
              | Inr c \<Rightarrow>
                  (let evs2 = evs1 @ [Log INFO ''Gemini API request completed'']
                              @ (if userId \<noteq> []
                                 then recordUsage (usage_insert env) userId tokenUsage
                                        modelName requestType c
                                 else [])
                   in case get_prop (data r) ''usageMetadata'' of
                        Inl e \<Rightarrow>
                          (Inl connection_error, evs2 @ [Log ERROR ''Gemini API request failed''])
                      | Inr um \<Rightarrow>
                          (Inr \<lparr>gr_data = GenerateJson (data r) um (round6 c) modelName (now env),
                                gr_status = status r, gr_headers = headers r\<rparr>,
                           evs2))))"

section \<open>The route POST /:model/generateContent\<close>

text \<open>
  The handler at the end of the route: it sends what the forwarder returns, or the status,
  code and message of what the forwarder raised (500 and fixed texts where they are missing).
\<close>

definition generateContent_handler :: "env \<Rightarrow> request \<Rightarrow> outcome \<times> event list" where
  "generateContent_handler env req =
     (case user req of
        None \<Rightarrow>
          (Respond \<lparr>res_status = 500, res_body = RaisedJson TypeError\<rparr>,
           [Log ERROR ''Generate content error''])
      | Some u \<Rightarrow>
          (case generateContent env (model req) (body req) (uid u) ''generate'' of
             (Inr result, evs) \<Rightarrow>
               (Respond \<lparr>res_status = gr_status result, res_body = gr_data result\<rparr>,
                [Log INFO ''Generate content request''] @ evs)
           | (Inl (ApiError err), evs) \<Rightarrow>
               (Respond \<lparr>res_status = (if ae_status err = 0 then 500 else ae_status err),
                         res_body = ApiErrorJson
                           (js_or (ae_code err) (JString ''INTERNAL_ERROR''))
                           (js_or (ae_message err) (JString ''An unexpected error occurred''))\<rparr>,
                [Log INFO ''Generate content request''] @ evs
                @ [Log ERROR ''Generate content error''])
           | (Inl (Raised e), evs) \<Rightarrow>
               (Respond \<lparr>res_status = 500, res_body = RaisedJson e\<rparr>,
                [Log INFO ''Generate content request''] @ evs
                @ [Log ERROR ''Generate content error''])))"

text \<open>
  A route is a list of middlewares. Each one runs on the request the one before passed
  on; the first that responds ends the route, and the later ones do not run.
\<close>

fun run_chain ::
  "(request \<Rightarrow> outcome \<times> event list) list \<Rightarrow> request \<Rightarrow> response option \<times> event list" where
  "run_chain [] req = (None, [])"
| "run_chain (m # ms) req =
     (case m req of
        (Respond r, evs) \<Rightarrow> (Some r, evs)
      | (Next req', evs) \<Rightarrow>
          (case run_chain ms req' of (result, evs') \<Rightarrow> (result, evs @ evs')))"

definition generateContent_route :: "env \<Rightarrow> request \<Rightarrow> response option \<times> event list" where
  "generateContent_route env req =
     run_chain
       [authenticateUser env, validateModel, validateRequest env, checkUserLimits env,
        estimateTokenUsage, generateContent_handler env]
       req"

section \<open>Observations on responses and event lists\<close>

text \<open>No call to the upstream API and no usage write among the events.\<close>

definition quiet :: "event list \<Rightarrow> bool" where
  "quiet evs = (filter is_upstream evs = [] \<and> filter is_usage_write evs = [])"

fun is_log :: "event \<Rightarrow> bool" where
  "is_log (Log lv msg) = True"
| "is_log e = False"

text \<open>A pricing entry whose two rates are finite and positive.\<close>

definition positive_rates :: "pricing_entry \<Rightarrow> bool" where
  "positive_rates p =
     (case (inputTokensPerDollar p, outputTokensPerDollar p) of
        (Num a, Num b) \<Rightarrow> 0 < a \<and> 0 < b
      | other \<Rightarrow> False)"

text \<open>\<open>details.reset_time\<close> of a body, where it has one.\<close>

fun reset_time :: "res_json \<Rightarrow> int option" where
  "reset_time (LimitJson err msg counter_name counter t) = Some t"
| "reset_time b = None"

subsection \<open>The quota rejection as the specification words it\<close>

text \<open>
  The three ceilings in the order hourly requests, daily tokens, daily cost; the first one
  violated decides the body: its counter, and the instant one hour (hourly) or twenty-four
  hours (daily), in milliseconds, after the clock reading \<open>t\<close>.
\<close>

definition spec_quota_rejection :: "int \<Rightarrow> limits \<Rightarrow> res_json" where
  "spec_quota_rejection t l =
     (if \<not> within_hourly_limit l then
        LimitJson ''Rate limit exceeded'' ''You have exceeded your hourly request limit''
          ''requests_last_hour'' (requests_last_hour l) (t + 3600000)
      else if \<not> within_daily_token_limit l then
        LimitJson ''Token limit exceeded'' ''You have exceeded your daily token limit''
          ''tokens_today'' (tokens_today l) (t + 86400000)
      else
        LimitJson ''Cost limit exceeded'' ''You have exceeded your daily cost limit''
          ''cost_today'' (cost_today l) (t + 86400000))"

section \<open>A sample request\<close>

text \<open>
  An active free-tier user within all limits asks \<open>gemini-1.5-flash\<close> about the text
  \<open>hello\<close>; the provider answers with 6 prompt tokens and 3 output tokens.
\<close>


definition sample_user :: user where
  "sample_user = \<lparr>uid = ''user-1'', email = ''user@example.com''\<rparr>"

definition sample_limits :: limits where
  "sample_limits =
     \<lparr>within_hourly_limit = True, within_daily_token_limit = True,
      within_daily_cost_limit = True, requests_last_hour = Num 3, tokens_today = Num 1200,
      cost_today = Num 0.25\<rparr>"

definition sample_env :: env where
  "sample_env =
     \<lparr>client_getUser = SbResult (Some sample_user) None,
      admin_getUser = SbThrows ''not called'',
      profile_select = SbResult (Some \<lparr>subscription_tier = ''free'', is_active = True\<rparr>) None,
      profile_insert = SbThrows ''not called'',
      schema_error = None,
      limits_rpc = SbResult (Some [sample_limits]) None,
      upstream = Resolved
        \<lparr>data = JObject [(''candidates'', JArray [candidate_json [TextPart ''Hi there!'']]),
                         (''usageMetadata'', usage_json 6 3 9)],
         status = 200, headers = []\<rparr>,
      usage_insert = SbResult None None,
      now = 1700000000000,
      number_of = (\<lambda>v. Inr NaN)\<rparr>"

definition sample_request :: request where
  "sample_request =
     \<lparr>authorization = Some ''Bearer token-1'',
      model = ''gemini-1.5-flash'',
      body = Some \<lparr>contents = Some [\<lparr>parts = Some [\<lparr>text_part = Some ''hello'',
                                                       inlineData = None\<rparr>],
                                      role = Some ''user''\<rparr>],
                    prompt = None\<rparr>,
      user = None, userProfile = None, userLimits = None, estimatedTokens = None\<rparr>"

subsection \<open>The cost contract as the specification words it\<close>

text \<open>
  The designated default entry: the rates of the legacy model \<open>gemini-pro\<close>, 0.50 and
  1.50 dollars for a million tokens.
\<close>

definition default_pricing :: pricing_entry where
  "default_pricing =
     \<lparr>inputTokensPerDollar = Num 2000000, outputTokensPerDollar = Num (2000000 / 3)\<rparr>"

definition spec_pricing :: "string \<Rightarrow> pricing_entry" where
  "spec_pricing modelId =
     (case map_of config_pricing modelId of Some p \<Rightarrow> p | None \<Rightarrow> default_pricing)"

definition spec_cost :: "jsnum \<Rightarrow> jsnum \<Rightarrow> string \<Rightarrow> jsnum" where
  "spec_cost inputTokens outputTokens modelId =
     js_add (js_div inputTokens (inputTokensPerDollar (spec_pricing modelId)))
            (js_div outputTokens (outputTokensPerDollar (spec_pricing modelId)))"

section \<open>Properties of the cost calculator\<close>

lemma pricing_get_gemini_pro: "pricing_get ''gemini-pro'' = Own default_pricing"
  by (simp add: pricing_get_def config_pricing_def default_pricing_def)

lemma pricing_get_embedding:
  "pricing_get ''gemini-embedding-001'' =
     Own \<lparr>inputTokensPerDollar = Num (20000000 / 3), outputTokensPerDollar = Num 0\<rparr>"
  by (simp add: pricing_get_def config_pricing_def)



lemma or_else_pricing:
  assumes "m \<notin> set object_prototype_members"
  shows "or_else (pricing_get m) (pricing_get ''gemini-pro'') = Own (spec_pricing m)"
  using assms
  by (simp add: or_else_def spec_pricing_def pricing_get_gemini_pro
      pricing_get_def [of m] split: option.split)

lemma calculateCost_spec_cost:
  assumes "m \<notin> set object_prototype_members"
  shows "calculateCost x y m = Inr (spec_cost x y m)"
  by (simp add: calculateCost_def or_else_pricing [OF assms] spec_cost_def)

text \<open>For the name of an inherited member the cost is NaN, whatever the counts.\<close>

lemma calculateCost_inherited:
  assumes "pricing_get m = Inherited"
  shows "calculateCost x y m = Inr NaN"
  using assms by (cases x; cases y) (simp_all add: calculateCost_def or_else_def)

text \<open>The computation never raises, whatever the model name.\<close>

lemma calculateCost_no_fault: "\<exists>c. calculateCost x y m = Inr c"
proof (cases "m \<in> set object_prototype_members")
  case False
  then show ?thesis by (simp add: calculateCost_spec_cost)
next
  case True
  then have "pricing_get m = Inherited \<or> (\<exists>p. pricing_get m = Own p)"
    by (simp add: pricing_get_def split: option.split)
  then show ?thesis
    by (auto simp: calculateCost_inherited calculateCost_def or_else_def)
qed

text \<open>An unlisted model is priced with the rates of \<open>gemini-pro\<close>.\<close>

lemma calculateCost_unlisted:
  assumes "pricing_get m = Missing"
  shows "calculateCost (Num a) (Num b) m = Inr (Num (a / 2000000 + b / (2000000 / 3)))"
  using assms
  by (simp add: calculateCost_def or_else_def pricing_get_gemini_pro default_pricing_def)

text \<open>
  Every entry of the table but that of \<open>gemini-embedding-001\<close>, and the default entry,
  has positive rates. For those models, inherited names apart, the cost is a finite
  non-negative number, zero for zero tokens, and doubling the input tokens doubles it.
\<close>

lemma spec_pricing_positive:
  "m \<noteq> ''gemini-embedding-001'' \<Longrightarrow> positive_rates (spec_pricing m)"
  by (simp add: spec_pricing_def config_pricing_def default_pricing_def positive_rates_def)

lemma positive_ratesE:
  assumes "positive_rates p"
  obtains a b where "inputTokensPerDollar p = Num a" "outputTokensPerDollar p = Num b"
    "0 < a" "0 < b"
  using assms by (auto simp: positive_rates_def split: jsnum.splits)

lemma calculateCost_finite_nonneg:
  assumes "m \<noteq> ''gemini-embedding-001''" and own: "m \<notin> set object_prototype_members"
  shows "\<exists>c. calculateCost (Num (real i)) (Num (real k)) m = Inr (Num c) \<and> 0 \<le> c"
proof -
  from spec_pricing_positive [OF assms(1)] obtain a b
    where p: "inputTokensPerDollar (spec_pricing m) = Num a"
      "outputTokensPerDollar (spec_pricing m) = Num b"
      and a: "0 < a" and b: "0 < b" by (rule positive_ratesE)
  then have "calculateCost (Num (real i)) (Num (real k)) m =
      Inr (Num (real i / a + real k / b))"
    by (simp add: calculateCost_spec_cost [OF own] spec_cost_def)
  moreover from a b have "0 \<le> real i / a + real k / b" by simp
  ultimately show ?thesis by blast
qed

lemma calculateCost_linear:
  assumes "m \<noteq> ''gemini-embedding-001''" and own: "m \<notin> set object_prototype_members"
  shows "\<exists>c. calculateCost (Num (real x)) (Num 0) m = Inr c
           \<and> calculateCost (Num (real (2 * x))) (Num 0) m = Inr (js_mul (Num 2) c)
           \<and> calculateCost (Num 0) (Num 0) m = Inr (Num 0)"
proof -
  from spec_pricing_positive [OF assms(1)] obtain a b
    where p: "inputTokensPerDollar (spec_pricing m) = Num a"
      "outputTokensPerDollar (spec_pricing m) = Num b"
      and a: "0 < a" and b: "0 < b" by (rule positive_ratesE)
  then show ?thesis
    by (simp add: calculateCost_spec_cost [OF own] spec_cost_def)
qed




text \<open>
  C4 fails on the code. The entry of \<open>gemini-embedding-001\<close> has
  \<open>outputTokensPerDollar = 0\<close>, so with no output tokens the output cost is \<open>0 / 0\<close>,
  which is NaN, and so is the sum: the cost of zero tokens is not 0, and the cost of \<open>2x\<close>
  input tokens is not equal to twice the cost of \<open>x\<close> (NaN equals nothing).
\<close>

theorem calculateCost_embedding_not_linear:
  "calculateCost (Num 0) (Num 0) ''gemini-embedding-001'' = Inr NaN
   \<and> \<not> js_eq NaN (Num 0)
   \<and> calculateCost (Num 7) (Num 0) ''gemini-embedding-001'' = Inr NaN
   \<and> calculateCost (Num 14) (Num 0) ''gemini-embedding-001'' = Inr NaN
   \<and> \<not> js_eq NaN (js_mul (Num 2) NaN)"
  by (simp add: calculateCost_def or_else_def pricing_get_embedding)

text \<open>
  C5 fails on the code at the same entry: for \<open>gemini-embedding-001\<close> the cost is NaN
  when there are no output tokens and infinite when there are some, so it is neither
  finite nor (for NaN) non-negative. The computation itself does not raise.
\<close>

theorem calculateCost_embedding_not_finite:
  "calculateCost (Num 5) (Num 0) ''gemini-embedding-001'' = Inr NaN
   \<and> \<not> js_isFinite NaN \<and> \<not> js_nonneg NaN
   \<and> calculateCost (Num 5) (Num 3) ''gemini-embedding-001'' = Inr PosInf
   \<and> \<not> js_isFinite PosInf"
  by (simp add: calculateCost_def or_else_def pricing_get_embedding)

section \<open>Properties of the usage extractor\<close>

lemma truthy_get_prop: "truthy v \<Longrightarrow> get_prop v name = Inr (opt_prop v name)"
  by (cases v) (simp_all add: opt_prop_def)



text \<open>
  With a truthy \<open>usageMetadata\<close> of any shape, each count is the property of that name,
  or 0 where the property is missing or falsy.
\<close>

lemma extractTokenUsage_metadata:
  assumes "truthy (opt_prop (data response) ''usageMetadata'')"
  shows "extractTokenUsage coerce response =
     \<lparr>promptTokenCount =
        js_or (opt_prop (opt_prop (data response) ''usageMetadata'') ''promptTokenCount'')
          (JNumber (Num 0)),
      candidatesTokenCount =
        js_or (opt_prop (opt_prop (data response) ''usageMetadata'') ''candidatesTokenCount'')
          (JNumber (Num 0)),
      totalTokenCount =
        js_or (opt_prop (opt_prop (data response) ''usageMetadata'') ''totalTokenCount'')
          (JNumber (Num 0))\<rparr>"
  using assms by (simp add: extractTokenUsage_def extract_try_def Let_def)

text \<open>
  A malformed response need not raise: a part whose \<open>text\<close> is \<open>true\<close> has no
  length, and the estimate becomes NaN.
\<close>

lemma extractTokenUsage_text_not_a_string:
  "extractTokenUsage coerce
     \<lparr>data = JObject [(''candidates'',
               JArray [JObject [(''content'',
                 JObject [(''parts'', JArray [JObject [(''text'', JBool True)]])])]])],
      status = 200, headers = []\<rparr> =
   \<lparr>promptTokenCount = JNumber (Num 0), candidatesTokenCount = JNumber NaN,
    totalTokenCount = JNumber NaN\<rparr>"
  by (simp add: extractTokenUsage_def extract_try_def opt_prop_def)



section \<open>Properties of the token estimator\<close>

lemma estimate_parts_sum: "estimate_parts ps n = n + sum_list (map part_tokens ps)"
proof (induction ps arbitrary: n)
  case Nil
  show ?case by simp
next
  case (Cons p ps)
  have "estimate_parts (p # ps) n = estimate_parts ps (n + part_tokens p)"
    by (simp add: part_tokens_def Let_def add.assoc split: option.split)
  also have "\<dots> = n + part_tokens p + sum_list (map part_tokens ps)"
    by (rule Cons.IH)
  finally show ?case by simp
qed

lemma estimate_contents_sum:
  "estimate_contents cs n = n + sum_list (map content_tokens cs)"
  by (induction cs arbitrary: n)
    (simp_all add: content_tokens_def estimate_parts_sum split: option.split)

text \<open>
  C6. For a request whose body has, as its contents, one text part of length \<open>L\<close> and
  nothing else, the estimator attaches the input estimate \<open>ceil(L / 4) + 100\<close> and twice
  that as the total, and passes the request on. For any contents, the input estimate is the
  sum over all parts of \<open>ceil(length / 4)\<close> for a text and 1000 for inline data, plus 100
  once; the total is twice the input estimate.
\<close>

theorem estimateTokenUsage_contract:
  "fst (estimateTokenUsage
          (req\<lparr>body := Some \<lparr>contents = Some [\<lparr>parts = Some [\<lparr>text_part = Some t,
                                                             inlineData = None\<rparr>],
                                            role = r\<rparr>],
                          prompt = q\<rparr>\<rparr>)) =
     Next (req\<lparr>body := Some \<lparr>contents = Some [\<lparr>parts = Some [\<lparr>text_part = Some t,
                                                             inlineData = None\<rparr>],
                                            role = r\<rparr>],
                          prompt = q\<rparr>,
               estimatedTokens :=
                 Some \<lparr>input_est = nat \<lceil>real (length t) / 4\<rceil> + 100,
                       total_est = 2 * (nat \<lceil>real (length t) / 4\<rceil> + 100)\<rparr>\<rparr>)
   \<and> fst (estimateTokenUsage (req\<lparr>body := Some \<lparr>contents = Some cs, prompt = q\<rparr>\<rparr>)) =
     Next (req\<lparr>body := Some \<lparr>contents = Some cs, prompt = q\<rparr>,
               estimatedTokens :=
                 Some \<lparr>input_est = spec_input_estimate cs,
                       total_est = 2 * spec_input_estimate cs\<rparr>\<rparr>)"
  by (simp add: estimateTokenUsage_def estimated_tokens_def estimate_try_def
      estimate_contents_sum spec_input_estimate_def content_tokens_def part_tokens_def
      Let_def)

section \<open>Properties of the route\<close>

lemma quiet_Nil: "quiet []"
  by (simp add: quiet_def)

lemma quiet_Cons:
  "quiet (e # evs) = (\<not> is_upstream e \<and> \<not> is_usage_write e \<and> quiet evs)"
  by (auto simp: quiet_def)

lemma quiet_append: "quiet (xs @ ys) = (quiet xs \<and> quiet ys)"
  by (auto simp: quiet_def)

lemmas quiet_simps = quiet_Nil quiet_Cons quiet_append

lemma verifyToken_quiet: "quiet (snd (verifyToken c a token))"
  by (simp add: verifyToken_def quiet_simps split: sb_outcome.split option.split)

lemma getUserProfile_quiet: "quiet (snd (getUserProfile sel ins userId))"
  by (simp add: getUserProfile_def quiet_simps split: sb_outcome.split option.split)

lemma supabase_checkUserLimits_quiet: "quiet (snd (supabase_checkUserLimits rpc userId))"
  by (simp add: supabase_checkUserLimits_def quiet_simps
      split: sb_outcome.split option.split list.split)

text \<open>
  When the auth gate passes the request on, it has attached a user and a profile, and has
  called neither the upstream API nor the usage store.
\<close>

lemma authenticateUser_next:
  assumes "authenticateUser env req = (Next req1, evs)"
  shows "\<exists>u p. req1 = req\<lparr>user := Some u, userProfile := Some p\<rparr> \<and> quiet evs"
proof -
  obtain vr evs1 where vt:
    "verifyToken (client_getUser env) (admin_getUser env)
       (drop 7 (the (authorization req))) = (vr, evs1)"
    by (cases "verifyToken (client_getUser env) (admin_getUser env)
                 (drop 7 (the (authorization req)))")
  have q1: "quiet evs1"
    using verifyToken_quiet [of "client_getUser env" "admin_getUser env"
        "drop 7 (the (authorization req))"] vt
    by simp
  show ?thesis
  proof (cases "vr_user vr")
    case None
    with assms vt show ?thesis
      by (auto simp: authenticateUser_def split: option.splits if_splits)
  next
    case (Some u)
    obtain pr evs2 where gp:
      "getUserProfile (profile_select env) (profile_insert env) (uid u) = (pr, evs2)"
      by (cases "getUserProfile (profile_select env) (profile_insert env) (uid u)")
    have q2: "quiet evs2"
      using getUserProfile_quiet [of "profile_select env" "profile_insert env" "uid u"] gp
      by simp
    from assms vt Some gp q1 q2 show ?thesis
      by (auto simp: authenticateUser_def quiet_simps
          split: option.splits if_splits sum.splits)
  qed
qed

lemma checkUserLimits_rejects:
  assumes u: "user req = Some u"
    and snap: "supabase_checkUserLimits (limits_rpc env) (uid u) = (Inr l, evs2)"
    and viol: "\<not> (within_hourly_limit l \<and> within_daily_token_limit l
                 \<and> within_daily_cost_limit l)"
  shows "\<exists>evs. checkUserLimits env req =
           (Respond \<lparr>res_status = 429, res_body = spec_quota_rejection (now env) l\<rparr>, evs)
         \<and> quiet evs"
proof -
  have "quiet evs2"
    using supabase_checkUserLimits_quiet [of "limits_rpc env" "uid u"] snap by simp
  with u snap viol show ?thesis
    by (auto simp: checkUserLimits_def spec_quota_rejection_def windowMs_def
        parseFloat_def quiet_simps)
qed

lemma reset_time_future:
  "\<exists>t. reset_time (spec_quota_rejection t0 l) = Some t \<and> t0 < t"
  by (simp add: spec_quota_rejection_def)

text \<open>
  C1. Take a request that the auth gate and the two validations pass on, and whose quota
  snapshot \<open>l\<close> violates at least one ceiling. The route answers 429 with the body of the
  first ceiling violated, in the order hourly requests, daily tokens, daily cost: that
  body carries the counter of the ceiling and a reset time after the clock reading (one
  hour later for the hourly ceiling, twenty-four hours later for a daily one). The events
  of the whole request hold no upstream call and no usage write.
\<close>

theorem quota_guard_rejects:
  assumes auth: "authenticateUser env req = (Next req1, evs1)"
    and allowed: "model req \<in> set allowedModels"
    and valid: "schema_error env = None"
    and u: "user req1 = Some u"
    and snap: "supabase_checkUserLimits (limits_rpc env) (uid u) = (Inr l, evs2)"
    and viol: "\<not> (within_hourly_limit l \<and> within_daily_token_limit l
                 \<and> within_daily_cost_limit l)"
  shows "\<exists>evs t. generateContent_route env req =
           (Some \<lparr>res_status = 429, res_body = spec_quota_rejection (now env) l\<rparr>, evs)
         \<and> quiet evs
         \<and> reset_time (spec_quota_rejection (now env) l) = Some t \<and> now env < t"
proof -
  from auth obtain u' p where req1: "req1 = req\<lparr>user := Some u', userProfile := Some p\<rparr>"
    and q1: "quiet evs1"
    using authenticateUser_next by blast
  from req1 allowed have vm: "validateModel req1 = (Next req1, [])"
    by (simp add: validateModel_def)
  from valid have vr: "validateRequest env req1 = (Next req1, [])"
    by (simp add: validateRequest_def)
  from checkUserLimits_rejects [OF u snap viol] obtain evs3
    where ck: "checkUserLimits env req1 =
        (Respond \<lparr>res_status = 429, res_body = spec_quota_rejection (now env) l\<rparr>, evs3)"
      and q3: "quiet evs3" by blast
  have route: "generateContent_route env req =
      (Some \<lparr>res_status = 429, res_body = spec_quota_rejection (now env) l\<rparr>, evs1 @ evs3)"
    by (simp add: generateContent_route_def auth vm vr ck)
  from reset_time_future obtain t
    where "reset_time (spec_quota_rejection (now env) l) = Some t" and "now env < t"
    by blast
  with route q1 q3 show ?thesis by (simp add: quiet_simps)
qed

theorem quota_guard_rejects_witness:
  "authenticateUser
      (sample_env\<lparr>limits_rpc :=
         SbResult (Some [sample_limits\<lparr>within_daily_token_limit := False\<rparr>]) None\<rparr>)
      sample_request =
     (Next (sample_request\<lparr>user := Some sample_user,
              userProfile := Some \<lparr>subscription_tier = ''free'', is_active = True\<rparr>\<rparr>),
      [Log DEBUG ''Starting token verification'', AuthGetUser ClientHandle ''token-1'',
       Log DEBUG ''Primary token verification successful'', SelectProfile ''user-1'',
       Log INFO ''User authenticated successfully''])
   \<and> model sample_request \<in> set allowedModels
   \<and> supabase_checkUserLimits
        (SbResult (Some [sample_limits\<lparr>within_daily_token_limit := False\<rparr>]) None)
        (uid sample_user) =
       (Inr (sample_limits\<lparr>within_daily_token_limit := False\<rparr>), [RpcCheckLimits ''user-1''])
   \<and> (\<exists>evs. generateContent_route
         (sample_env\<lparr>limits_rpc :=
            SbResult (Some [sample_limits\<lparr>within_daily_token_limit := False\<rparr>]) None\<rparr>)
         sample_request =
        (Some \<lparr>res_status = 429,
               res_body = LimitJson ''Token limit exceeded''
                 ''You have exceeded your daily token limit'' ''tokens_today'' (Num 1200)
                 1700086400000\<rparr>, evs) \<and> quiet evs)"
  using quota_guard_rejects
    [of "sample_env\<lparr>limits_rpc :=
           SbResult (Some [sample_limits\<lparr>within_daily_token_limit := False\<rparr>]) None\<rparr>"
        sample_request
        "sample_request\<lparr>user := Some sample_user,
              userProfile := Some \<lparr>subscription_tier = ''free'', is_active = True\<rparr>\<rparr>"
        "[Log DEBUG ''Starting token verification'', AuthGetUser ClientHandle ''token-1'',
          Log DEBUG ''Primary token verification successful'', SelectProfile ''user-1'',
          Log INFO ''User authenticated successfully'']"
        sample_user
        "sample_limits\<lparr>within_daily_token_limit := False\<rparr>"
        "[RpcCheckLimits ''user-1'']"]
  by (simp add: authenticateUser_def verifyToken_def getUserProfile_def sample_env_def
      sample_request_def sample_user_def sample_limits_def allowedModels_def
      supabase_checkUserLimits_def spec_quota_rejection_def)

text \<open>
  C2. When the snapshot query fails (the call raises, answers with an error, or answers
  with no data at all), the quota guard logs the failure at level ERROR and passes the
  request on unchanged: the rest of the route runs on it.
\<close>

theorem quota_guard_fails_open:
  "checkUserLimits (env\<lparr>limits_rpc := SbThrows m\<rparr>) (req\<lparr>user := Some u\<rparr>) =
     (Next (req\<lparr>user := Some u\<rparr>),
      [RpcCheckLimits (uid u), Log ERROR ''Error in checkUserLimits'',
       Log ERROR ''Error checking user limits''])
   \<and> checkUserLimits (env\<lparr>limits_rpc := SbResult rows (Some err)\<rparr>) (req\<lparr>user := Some u\<rparr>) =
     (Next (req\<lparr>user := Some u\<rparr>),
      [RpcCheckLimits (uid u), Log ERROR ''Error checking user limits'',
       Log ERROR ''Error in checkUserLimits'', Log ERROR ''Error checking user limits''])
   \<and> checkUserLimits (env\<lparr>limits_rpc := SbResult None None\<rparr>) (req\<lparr>user := Some u\<rparr>) =
     (Next (req\<lparr>user := Some u\<rparr>),
      [RpcCheckLimits (uid u), Log ERROR ''Error in checkUserLimits'',
       Log ERROR ''Error checking user limits''])
   \<and> run_chain (checkUserLimits (env\<lparr>limits_rpc := SbThrows m\<rparr>) # rest)
        (req\<lparr>user := Some u\<rparr>) =
       (fst (run_chain rest (req\<lparr>user := Some u\<rparr>)),
        [RpcCheckLimits (uid u), Log ERROR ''Error in checkUserLimits'',
         Log ERROR ''Error checking user limits'']
        @ snd (run_chain rest (req\<lparr>user := Some u\<rparr>)))
   \<and> run_chain (checkUserLimits (env\<lparr>limits_rpc := SbResult rows (Some err)\<rparr>) # rest)
        (req\<lparr>user := Some u\<rparr>) =
       (fst (run_chain rest (req\<lparr>user := Some u\<rparr>)),
        [RpcCheckLimits (uid u), Log ERROR ''Error checking user limits'',
         Log ERROR ''Error in checkUserLimits'', Log ERROR ''Error checking user limits'']
        @ snd (run_chain rest (req\<lparr>user := Some u\<rparr>)))"
  by (simp add: checkUserLimits_def supabase_checkUserLimits_def case_prod_beta)

text \<open>
  C10. When the limits call succeeds with an empty list of rows, the service substitutes
  the default snapshot, whose three flags are all false, and the quota guard answers 429
  (the hourly ceiling, counter 0, being the first one tested).
\<close>

theorem empty_snapshot_fails_closed:
  "supabase_checkUserLimits (SbResult (Some []) None) userId =
     (Inr default_limits, [RpcCheckLimits userId])
   \<and> \<not> within_hourly_limit default_limits
   \<and> \<not> within_daily_token_limit default_limits
   \<and> \<not> within_daily_cost_limit default_limits
   \<and> checkUserLimits (env\<lparr>limits_rpc := SbResult (Some []) None\<rparr>) (req\<lparr>user := Some u\<rparr>) =
     (Respond \<lparr>res_status = 429,
               res_body = LimitJson ''Rate limit exceeded''
                 ''You have exceeded your hourly request limit'' ''requests_last_hour''
                 (Num 0) (now env + 3600000)\<rparr>,
      [RpcCheckLimits (uid u), Log INFO ''Checking user limits'',
       Log WARN ''User exceeded hourly request limit''])"
  by (simp add: checkUserLimits_def supabase_checkUserLimits_def default_limits_def
      windowMs_def)

section \<open>Properties of the usage recorder\<close>

text \<open>
  Two routes that differ in their last handler only: when the two handlers always give the
  same outcome, and the same events under a filter, so do the routes.
\<close>

lemma run_chain_last_cong:
  assumes "\<And>r. fst (h1 r) = fst (h2 r)"
    and "\<And>r. filter Q (snd (h1 r)) = filter Q (snd (h2 r))"
  shows "fst (run_chain (ms @ [h1]) req) = fst (run_chain (ms @ [h2]) req)
       \<and> filter Q (snd (run_chain (ms @ [h1]) req)) =
         filter Q (snd (run_chain (ms @ [h2]) req))"
proof (induction ms arbitrary: req)
  case Nil
  have a: "fst (h1 req) = fst (h2 req)" by (rule assms(1))
  have b: "filter Q (snd (h1 req)) = filter Q (snd (h2 req))" by (rule assms(2))
  obtain o1 e1 where h1: "h1 req = (o1, e1)" by (cases "h1 req")
  obtain o2 e2 where h2: "h2 req = (o2, e2)" by (cases "h2 req")
  from a b h1 h2 show ?case by (cases o1) auto
next
  case (Cons m ms)
  obtain ou ev where m: "m req = (ou, ev)" by (cases "m req")
  show ?case
  proof (cases ou)
    case (Next req')
    with m Cons.IH [of req'] show ?thesis by (simp add: case_prod_beta)
  next
    case (Respond r)
    with m show ?thesis by simp
  qed
qed

text \<open>Events of a kind that only the last handler causes, and at most once.\<close>

lemma run_chain_count:
  assumes "\<And>m r. m \<in> set ms \<Longrightarrow> filter P (snd (m r)) = []"
    and "\<And>r. length (filter P (snd (h r))) \<le> 1"
  shows "length (filter P (snd (run_chain (ms @ [h]) req))) \<le> 1"
  using assms(1)
proof (induction ms arbitrary: req)
  case Nil
  obtain o1 e1 where h: "h req = (o1, e1)" by (cases "h req")
  with assms(2) [of req] show ?case by (cases o1) auto
next
  case (Cons m ms)
  obtain ou ev where m: "m req = (ou, ev)" by (cases "m req")
  have ev: "filter P ev = []" using Cons.prems [of m req] m by simp
  show ?case
  proof (cases ou)
    case (Next req')
    have "length (filter P (snd (run_chain (ms @ [h]) req'))) \<le> 1"
      by (rule Cons.IH) (simp add: Cons.prems)
    with m Next ev show ?thesis by (simp add: case_prod_beta)
  next
    case (Respond r)
    with m ev show ?thesis by simp
  qed
qed

lemma supabase_recordUsage_nonlog:
  "filter (\<lambda>e. \<not> is_log e) (snd (supabase_recordUsage w row)) = [InsertUsage row]"
  by (simp add: supabase_recordUsage_def split: sb_outcome.split option.split)

lemma recordUsage_nonlog:
  "filter (\<lambda>e. \<not> is_log e) (recordUsage w userId tu m rt c) =
     [InsertUsage \<lparr>user_id = userId, tokens_used = totalTokenCount tu, cost_col = c,
              model_name = m, request_type = rt, service = ''gemini''\<rparr>]"
proof -
  let ?row = "\<lparr>user_id = userId, tokens_used = totalTokenCount tu, cost_col = c,
              model_name = m, request_type = rt, service = ''gemini''\<rparr>"
  obtain res evs where r: "supabase_recordUsage w ?row = (res, evs)"
    by (cases "supabase_recordUsage w ?row")
  with supabase_recordUsage_nonlog [of w ?row]
  have "filter (\<lambda>e. \<not> is_log e) evs = [InsertUsage ?row]"
    by simp
  with r show ?thesis by (cases res) (simp_all add: recordUsage_def)
qed

lemma recordUsage_writes:
  "length (filter is_usage_write (recordUsage w userId tu m rt c)) = 1"
  by (simp add: recordUsage_def supabase_recordUsage_def
      split: sb_outcome.split option.split)

lemma generateContent_store_fst:
  "fst (generateContent (env\<lparr>usage_insert := w\<rparr>) m b userId rt) =
   fst (generateContent env m b userId rt)"
  by (simp add: generateContent_def Let_def split: axios_outcome.split sum.split)

lemma generateContent_store_nonlog:
  "filter (\<lambda>e. \<not> is_log e)
     (snd (generateContent (env\<lparr>usage_insert := w\<rparr>) m b userId rt)) =
   filter (\<lambda>e. \<not> is_log e) (snd (generateContent env m b userId rt))"
  by (simp add: generateContent_def Let_def recordUsage_nonlog
      split: axios_outcome.split sum.split)

lemma generateContent_writes:
  "length (filter is_usage_write (snd (generateContent env m b userId rt))) \<le> 1"
  by (simp add: generateContent_def Let_def recordUsage_writes
      split: axios_outcome.split sum.split)

lemma handler_store:
  "fst (generateContent_handler (env\<lparr>usage_insert := w\<rparr>) req) =
     fst (generateContent_handler env req)
   \<and> filter (\<lambda>e. \<not> is_log e)
       (snd (generateContent_handler (env\<lparr>usage_insert := w\<rparr>) req)) =
     filter (\<lambda>e. \<not> is_log e) (snd (generateContent_handler env req))"
proof (cases "user req")
  case None
  then show ?thesis by (simp add: generateContent_handler_def)
next
  case (Some u)
  let ?g1 = "generateContent (env\<lparr>usage_insert := w\<rparr>) (model req) (body req) (uid u)
               ''generate''"
  let ?g2 = "generateContent env (model req) (body req) (uid u) ''generate''"
  obtain r1 e1 where g1: "?g1 = (r1, e1)" by (cases ?g1)
  obtain r2 e2 where g2: "?g2 = (r2, e2)" by (cases ?g2)
  have "fst ?g1 = fst ?g2" by (rule generateContent_store_fst)
  with g1 g2 have r: "r1 = r2" by simp
  have "filter (\<lambda>e. \<not> is_log e) (snd ?g1) = filter (\<lambda>e. \<not> is_log e) (snd ?g2)"
    by (rule generateContent_store_nonlog)
  with g1 g2 have e: "filter (\<lambda>e. \<not> is_log e) e1 = filter (\<lambda>e. \<not> is_log e) e2"
    by simp
  from Some g1 g2 r e show ?thesis
    by (simp add: generateContent_handler_def split: sum.split thrown.split)
qed

lemma handler_writes:
  "length (filter is_usage_write (snd (generateContent_handler env req))) \<le> 1"
proof (cases "user req")
  case None
  then show ?thesis by (simp add: generateContent_handler_def)
next
  case (Some u)
  let ?g2 = "generateContent env (model req) (body req) (uid u) ''generate''"
  obtain r2 e2 where g2: "?g2 = (r2, e2)" by (cases ?g2)
  have "length (filter is_usage_write (snd ?g2)) \<le> 1" by (rule generateContent_writes)
  with g2 have "length (filter is_usage_write e2) \<le> 1" by simp
  with Some g2 show ?thesis
    by (simp add: generateContent_handler_def split: sum.split thrown.split)
qed

lemma quiet_no_writes: "quiet evs \<Longrightarrow> filter is_usage_write evs = []"
  by (simp add: quiet_def)

lemma authenticateUser_no_writes:
  "filter is_usage_write (snd (authenticateUser env req)) = []"
proof -
  have "quiet (snd (authenticateUser env req))"
    using verifyToken_quiet [of "client_getUser env" "admin_getUser env"
        "drop 7 (the (authorization req))"]
      getUserProfile_quiet [of "profile_select env" "profile_insert env"]
    by (auto simp: authenticateUser_def quiet_simps case_prod_beta
        split: option.split sum.split)
  then show ?thesis by (rule quiet_no_writes)
qed

lemma checkUserLimits_no_writes:
  "filter is_usage_write (snd (checkUserLimits env req)) = []"
proof -
  have "quiet (snd (checkUserLimits env req))"
    using supabase_checkUserLimits_quiet [of "limits_rpc env"]
    by (auto simp: checkUserLimits_def quiet_simps case_prod_beta
        split: option.split sum.split)
  then show ?thesis by (rule quiet_no_writes)
qed

text \<open>The stages before the handler do not look at the answer of the usage store.\<close>

lemma authenticateUser_store:
  "authenticateUser (env\<lparr>usage_insert := w\<rparr>) = authenticateUser env"
  by (rule ext)
    (simp add: authenticateUser_def cong: option.case_cong if_cong prod.case_cong)

lemma validateRequest_store:
  "validateRequest (env\<lparr>usage_insert := w\<rparr>) = validateRequest env"
  by (rule ext) (simp add: validateRequest_def)

lemma checkUserLimits_store:
  "checkUserLimits (env\<lparr>usage_insert := w\<rparr>) = checkUserLimits env"
  by (rule ext)
    (simp add: checkUserLimits_def
      cong: option.case_cong if_cong prod.case_cong sum.case_cong)

text \<open>
  C8. Two runs of the route that differ only in what the usage store answers to the write
  send the same response (status and body), and cause the same events apart from log
  lines: a failed write is only logged. In any run the usage store is written at most
  once, so a failed write is not tried again.
\<close>

theorem usage_write_failure_invisible:
  "fst (generateContent_route (env\<lparr>usage_insert := w\<rparr>) req) =
     fst (generateContent_route env req)
   \<and> filter (\<lambda>e. \<not> is_log e) (snd (generateContent_route (env\<lparr>usage_insert := w\<rparr>) req)) =
     filter (\<lambda>e. \<not> is_log e) (snd (generateContent_route env req))
   \<and> length (filter is_usage_write (snd (generateContent_route env req))) \<le> 1"
proof -
  let ?pre = "[authenticateUser env, validateModel, validateRequest env,
               checkUserLimits env, estimateTokenUsage]"
  let ?h1 = "generateContent_handler (env\<lparr>usage_insert := w\<rparr>)"
  let ?h2 = "generateContent_handler env"
  have r1: "generateContent_route (env\<lparr>usage_insert := w\<rparr>) req =
            run_chain (?pre @ [?h1]) req"
    by (simp add: generateContent_route_def authenticateUser_store validateRequest_store
        checkUserLimits_store)
  have r2: "generateContent_route env req = run_chain (?pre @ [?h2]) req"
    by (simp add: generateContent_route_def)
  have par: "fst (run_chain (?pre @ [?h1]) req) = fst (run_chain (?pre @ [?h2]) req)
      \<and> filter (\<lambda>e. \<not> is_log e) (snd (run_chain (?pre @ [?h1]) req)) =
        filter (\<lambda>e. \<not> is_log e) (snd (run_chain (?pre @ [?h2]) req))"
    by (rule run_chain_last_cong) (simp_all add: handler_store)
  have cnt: "length (filter is_usage_write (snd (run_chain (?pre @ [?h2]) req))) \<le> 1"
  proof (rule run_chain_count)
    fix m r assume "m \<in> set ?pre"
    then show "filter is_usage_write (snd (m r)) = []"
      by (auto simp: authenticateUser_no_writes checkUserLimits_no_writes
          validateModel_def validateRequest_def estimateTokenUsage_def split: option.split)
  next
    fix r show "length (filter is_usage_write (snd (?h2 r))) \<le> 1"
      by (rule handler_writes)
  qed
  from par cnt show ?thesis by (simp only: r1 r2)
qed

text \<open>
  The sample request with a usage store that is down: the client gets the same 200
  response as with a working store; the failure shows in the log only.
\<close>

lemma usage_write_failure_sample:
  "fst (generateContent_route (sample_env\<lparr>usage_insert := SbThrows ''store down''\<rparr>)
          sample_request) =
     fst (generateContent_route sample_env sample_request)
   \<and> map_option res_status (fst (generateContent_route sample_env sample_request)) = Some 200
   \<and> Log ERROR ''Failed to record usage in database''
       \<in> set (snd (generateContent_route (sample_env\<lparr>usage_insert := SbThrows ''store down''\<rparr>)
                     sample_request))
   \<and> length (filter is_usage_write
         (snd (generateContent_route (sample_env\<lparr>usage_insert := SbThrows ''store down''\<rparr>)
                sample_request))) = 1"
  by (simp add: generateContent_route_def authenticateUser_def verifyToken_def
      getUserProfile_def validateModel_def validateRequest_def checkUserLimits_def
      supabase_checkUserLimits_def estimateTokenUsage_def generateContent_handler_def
      generateContent_def extractTokenUsage_def extract_try_def opt_prop_def js_or_def
      cost_of_usage_def calculateCost_def or_else_def pricing_get_def config_pricing_def
      recordUsage_def supabase_recordUsage_def usage_json_def candidate_json_def
      sample_env_def sample_request_def sample_user_def sample_limits_def allowedModels_def
      Let_def)

section \<open>Properties of the auth gate\<close>

text \<open>
  The calls to the identity provider, in order: one with the client handle, followed by
  one with the admin handle exactly when the first resolves with an error.
\<close>

lemma verifyToken_calls:
  "filter is_verify (snd (verifyToken c a token)) =
     (case c of
        SbThrows m \<Rightarrow> [AuthGetUser ClientHandle token]
      | SbResult found None \<Rightarrow> [AuthGetUser ClientHandle token]
      | SbResult found (Some err) \<Rightarrow>
          [AuthGetUser ClientHandle token, AuthGetUser AdminHandle token])"
  by (simp add: verifyToken_def split: sb_outcome.split option.split)

lemma getUserProfile_no_verify: "filter is_verify (snd (getUserProfile sel ins userId)) = []"
  by (simp add: getUserProfile_def split: sb_outcome.split option.split)

lemma authenticateUser_calls:
  assumes h: "authorization req = Some h" and b: "take 7 h = ''Bearer ''"
  shows "filter is_verify (snd (authenticateUser env req)) =
     (case client_getUser env of
        SbThrows m \<Rightarrow> [AuthGetUser ClientHandle (drop 7 h)]
      | SbResult found None \<Rightarrow> [AuthGetUser ClientHandle (drop 7 h)]
      | SbResult found (Some err) \<Rightarrow>
          [AuthGetUser ClientHandle (drop 7 h), AuthGetUser AdminHandle (drop 7 h)])"
proof -
  from b have ne: "h \<noteq> []" by auto
  obtain vr evs1 where vt:
    "verifyToken (client_getUser env) (admin_getUser env) (drop 7 h) = (vr, evs1)"
    by (cases "verifyToken (client_getUser env) (admin_getUser env) (drop 7 h)")
  from verifyToken_calls [of "client_getUser env" "admin_getUser env" "drop 7 h"] vt
  have n: "filter is_verify evs1 =
     (case client_getUser env of
        SbThrows m \<Rightarrow> [AuthGetUser ClientHandle (drop 7 h)]
      | SbResult found None \<Rightarrow> [AuthGetUser ClientHandle (drop 7 h)]
      | SbResult found (Some err) \<Rightarrow>
          [AuthGetUser ClientHandle (drop 7 h), AuthGetUser AdminHandle (drop 7 h)])"
    by simp
  have "filter is_verify (snd (authenticateUser env req)) = filter is_verify evs1"
    using h b ne vt getUserProfile_no_verify [of "profile_select env" "profile_insert env"]
    by (auto simp: authenticateUser_def case_prod_beta split: option.split sum.split)
  with n show ?thesis by simp
qed

text \<open>Without a \<open>Bearer\<close> header the identity provider is not called at all.\<close>

lemma authenticateUser_no_header:
  assumes "authorization req = None
         \<or> (\<exists>h. authorization req = Some h \<and> take 7 h \<noteq> ''Bearer '')"
  shows "authenticateUser env req =
     (Respond \<lparr>res_status = 401,
               res_body = ErrorJson ''Authentication required''
                            ''Please provide a valid Bearer token''\<rparr>,
      [Log WARN ''Missing or invalid authorization header''])"
  using assms by (auto simp: authenticateUser_def)

lemma verifyToken_provider_failure:
  "c = SbThrows m \<or> (c = SbResult f (Some e1)
       \<and> (a = SbThrows m' \<or> a = SbResult f' (Some e2))) \<Longrightarrow>
   vr_user (fst (verifyToken c a token)) = None
   \<and> vr_error (fst (verifyToken c a token)) \<noteq> None"
  by (auto simp: verifyToken_def)

lemma authenticateUser_401:
  assumes h: "authorization req = Some h" and b: "take 7 h = ''Bearer ''"
    and f: "vr_error (fst (verifyToken (client_getUser env) (admin_getUser env) (drop 7 h)))
              \<noteq> None
          \<or> vr_user (fst (verifyToken (client_getUser env) (admin_getUser env) (drop 7 h)))
              = None"
  shows "fst (authenticateUser env req) =
     Respond \<lparr>res_status = 401,
              res_body = ErrorJson ''Invalid or expired token'' ''Please authenticate again''\<rparr>"
proof -
  from b have ne: "h \<noteq> []" by auto
  obtain vr evs1 where vt:
    "verifyToken (client_getUser env) (admin_getUser env) (drop 7 h) = (vr, evs1)"
    by (cases "verifyToken (client_getUser env) (admin_getUser env) (drop 7 h)")
  with f have "vr_error vr \<noteq> None \<or> vr_user vr = None" by simp
  with h b ne vt show ?thesis
    by (auto simp: authenticateUser_def split: option.split)
qed

lemma authenticateUser_5xx:
  assumes r: "fst (authenticateUser env req) = Respond r" and s: "500 \<le> res_status r"
  shows "\<exists>h u. authorization req = Some h
     \<and> fst (verifyToken (client_getUser env) (admin_getUser env) (drop 7 h)) =
         \<lparr>vr_user = Some u, vr_error = None\<rparr>
     \<and> (\<forall>p. fst (getUserProfile (profile_select env) (profile_insert env) (uid u))
             \<noteq> Inr (Some p))"
proof -
  from r s obtain h where h: "authorization req = Some h" and b: "take 7 h = ''Bearer ''"
    by (auto simp: authenticateUser_def split: option.splits if_splits)
  from b have ne: "h \<noteq> []" by auto
  obtain vr evs1 where vt:
    "verifyToken (client_getUser env) (admin_getUser env) (drop 7 h) = (vr, evs1)"
    by (cases "verifyToken (client_getUser env) (admin_getUser env) (drop 7 h)")
  from r s h b ne vt obtain u where u: "vr_user vr = Some u" and e: "vr_error vr = None"
    by (auto simp: authenticateUser_def split: option.splits if_splits)
  obtain pr evs2 where gp:
    "getUserProfile (profile_select env) (profile_insert env) (uid u) = (pr, evs2)"
    by (cases "getUserProfile (profile_select env) (profile_insert env) (uid u)")
  from r s h b ne vt u e gp have "\<forall>p. pr \<noteq> Inr (Some p)"
    by (auto simp: authenticateUser_def split: option.splits if_splits sum.splits)
  moreover from u e have "vr = \<lparr>vr_user = Some u, vr_error = None\<rparr>" by simp
  ultimately show ?thesis using h vt gp by auto
qed

text \<open>
  C9 fails on the code, in both halves. When the call with the client handle resolves
  with an error, \<open>verifyToken\<close> calls the identity provider a second time, with the admin
  handle, and a user found there is accepted: two attempts. And an identity provider that
  cannot be reached (the call raises) is answered 401, as an invalid token, not 5xx.
\<close>

theorem auth_gate_counterexample:
  "length (filter is_verify (snd (authenticateUser
      (sample_env\<lparr>client_getUser :=
                    SbResult None (Some \<lparr>err_code = ''unexpected_failure'',
                                          err_message = ''fetch failed''\<rparr>),
                  admin_getUser := SbResult (Some sample_user) None\<rparr>)
      sample_request))) = 2
   \<and> fst (authenticateUser
      (sample_env\<lparr>client_getUser :=
                    SbResult None (Some \<lparr>err_code = ''unexpected_failure'',
                                          err_message = ''fetch failed''\<rparr>),
                  admin_getUser := SbResult (Some sample_user) None\<rparr>)
      sample_request) =
      Next (sample_request\<lparr>user := Some sample_user,
              userProfile := Some \<lparr>subscription_tier = ''free'', is_active = True\<rparr>\<rparr>)
   \<and> fst (authenticateUser (sample_env\<lparr>client_getUser := SbThrows ''connect ETIMEDOUT''\<rparr>)
          sample_request) =
      Respond \<lparr>res_status = 401,
               res_body = ErrorJson ''Invalid or expired token''
                            ''Please authenticate again''\<rparr>"
  by (simp add: authenticateUser_def verifyToken_def getUserProfile_def sample_env_def
      sample_request_def sample_user_def)

text \<open>
  C9 as amended. For a request with a \<open>Bearer\<close> header, the calls the auth gate makes
  to the identity provider are exactly these: one with the client handle and, exactly when
  that call resolves with an error, one more after it with the admin handle, both with the
  token of the header; one or two attempts, none repeated. When the identity provider
  fails (the first call raises, or it reports an error and the second call raises or
  reports an error too), the answer is 401 \<open>Invalid or expired token\<close>. An answer of
  status 500 or above is sent only after a successful verification, when the profile
  lookup raises or finds no profile.
\<close>

theorem auth_gate_verification:
  assumes h: "authorization req = Some h" and b: "take 7 h = ''Bearer ''"
  shows "filter is_verify (snd (authenticateUser env req)) =
           (case client_getUser env of
              SbThrows m \<Rightarrow> [AuthGetUser ClientHandle (drop 7 h)]
            | SbResult found None \<Rightarrow> [AuthGetUser ClientHandle (drop 7 h)]
            | SbResult found (Some err) \<Rightarrow>
                [AuthGetUser ClientHandle (drop 7 h), AuthGetUser AdminHandle (drop 7 h)])
       \<and> length (filter is_verify (snd (authenticateUser env req))) =
           (case client_getUser env of SbThrows m \<Rightarrow> 1 | SbResult found None \<Rightarrow> 1
            | SbResult found (Some err) \<Rightarrow> 2)
       \<and> (client_getUser env = SbThrows m
            \<or> (client_getUser env = SbResult f (Some e1)
                \<and> (admin_getUser env = SbThrows m' \<or> admin_getUser env = SbResult f' (Some e2)))
          \<longrightarrow> fst (authenticateUser env req) =
                Respond \<lparr>res_status = 401,
                         res_body = ErrorJson ''Invalid or expired token''
                                      ''Please authenticate again''\<rparr>)
       \<and> (\<forall>r. fst (authenticateUser env req) = Respond r \<longrightarrow> 500 \<le> res_status r \<longrightarrow>
            (\<exists>u. fst (verifyToken (client_getUser env) (admin_getUser env) (drop 7 h)) =
                   \<lparr>vr_user = Some u, vr_error = None\<rparr>
                 \<and> (\<forall>p. fst (getUserProfile (profile_select env) (profile_insert env) (uid u))
                         \<noteq> Inr (Some p))))"
proof (intro conjI impI allI)
  show calls: "filter is_verify (snd (authenticateUser env req)) =
           (case client_getUser env of
              SbThrows m \<Rightarrow> [AuthGetUser ClientHandle (drop 7 h)]
            | SbResult found None \<Rightarrow> [AuthGetUser ClientHandle (drop 7 h)]
            | SbResult found (Some err) \<Rightarrow>
                [AuthGetUser ClientHandle (drop 7 h), AuthGetUser AdminHandle (drop 7 h)])"
    using h b by (rule authenticateUser_calls)
  show "length (filter is_verify (snd (authenticateUser env req))) =
           (case client_getUser env of SbThrows m \<Rightarrow> 1 | SbResult found None \<Rightarrow> 1
            | SbResult found (Some err) \<Rightarrow> 2)"
    by (simp add: calls split: sb_outcome.split option.split)
next
  assume "client_getUser env = SbThrows m
            \<or> (client_getUser env = SbResult f (Some e1)
                \<and> (admin_getUser env = SbThrows m' \<or> admin_getUser env = SbResult f' (Some e2)))"
  then have "vr_user (fst (verifyToken (client_getUser env) (admin_getUser env) (drop 7 h)))
               = None
           \<and> vr_error (fst (verifyToken (client_getUser env) (admin_getUser env) (drop 7 h)))
               \<noteq> None"
    by (rule verifyToken_provider_failure)
  then show "fst (authenticateUser env req) =
                Respond \<lparr>res_status = 401,
                         res_body = ErrorJson ''Invalid or expired token''
                                      ''Please authenticate again''\<rparr>"
    using authenticateUser_401 [OF h b] by blast
next
  fix r
  assume r: "fst (authenticateUser env req) = Respond r" and s: "500 \<le> res_status r"
  from authenticateUser_5xx [OF r s] h
  show "\<exists>u. fst (verifyToken (client_getUser env) (admin_getUser env) (drop 7 h)) =
                   \<lparr>vr_user = Some u, vr_error = None\<rparr>
                 \<and> (\<forall>p. fst (getUserProfile (profile_select env) (profile_insert env) (uid u))
                         \<noteq> Inr (Some p))"
    by auto
qed

theorem auth_gate_verification_witness:
  "authorization sample_request = Some ''Bearer token-1''
   \<and> take 7 ''Bearer token-1'' = ''Bearer ''
   \<and> filter is_verify (snd (authenticateUser
         (sample_env\<lparr>client_getUser := SbThrows ''connect ETIMEDOUT''\<rparr>) sample_request)) =
       [AuthGetUser ClientHandle ''token-1'']
   \<and> fst (authenticateUser (sample_env\<lparr>client_getUser := SbThrows ''connect ETIMEDOUT''\<rparr>)
          sample_request) =
       Respond \<lparr>res_status = 401,
                res_body = ErrorJson ''Invalid or expired token''
                             ''Please authenticate again''\<rparr>
   \<and> filter is_verify (snd (authenticateUser
         (sample_env\<lparr>client_getUser :=
                       SbResult None (Some \<lparr>err_code = ''unexpected_failure'',
                                             err_message = ''fetch failed''\<rparr>),
                     admin_getUser := SbResult (Some sample_user) None\<rparr>)
         sample_request)) =
       [AuthGetUser ClientHandle ''token-1'', AuthGetUser AdminHandle ''token-1'']
   \<and> fst (authenticateUser (sample_env\<lparr>profile_select := SbThrows ''store down''\<rparr>)
          sample_request) =
       Respond \<lparr>res_status = 500,
                res_body = ErrorJson ''Authentication service error''
                             ''Please try again later''\<rparr>
   \<and> fst (verifyToken (client_getUser (sample_env\<lparr>profile_select := SbThrows ''store down''\<rparr>))
               (admin_getUser (sample_env\<lparr>profile_select := SbThrows ''store down''\<rparr>))
               (drop 7 ''Bearer token-1'')) =
       \<lparr>vr_user = Some sample_user, vr_error = None\<rparr>"
  using auth_gate_verification
    [where req = sample_request and h = "''Bearer token-1''"
       and env = "sample_env\<lparr>client_getUser := SbThrows ''connect ETIMEDOUT''\<rparr>"
       and m = "''connect ETIMEDOUT''"]
    auth_gate_verification
    [where req = sample_request and h = "''Bearer token-1''"
       and env = "sample_env\<lparr>client_getUser :=
                       SbResult None (Some \<lparr>err_code = ''unexpected_failure'',
                                             err_message = ''fetch failed''\<rparr>),
                     admin_getUser := SbResult (Some sample_user) None\<rparr>"]
    auth_gate_verification
    [where req = sample_request and h = "''Bearer token-1''"
       and env = "sample_env\<lparr>profile_select := SbThrows ''store down''\<rparr>"]
  by (simp add: authenticateUser_def verifyToken_def getUserProfile_def sample_env_def
      sample_request_def sample_user_def)

end
